theory Spec2Isabelle
  imports Complex_Main
begin

section \<open>Data model (app/models.py)\<close>

text \<open>
  The two closed vocabularies of \<^verbatim>\<open>models.py\<close>. Both Python enums derive from
  \<^verbatim>\<open>str\<close> with non-empty values, so every member is truthy.
\<close>

datatype transaction_type = CREDIT | DEBIT | PAYMENT | TRANSFER | SPENT | RECEIVED

datatype payment_method = UPI | CARD | NEFT | IMPS | RTGS | CASH | WALLET

text \<open>
  A \<^verbatim>\<open>datetime\<close> value: calendar date plus the microsecond of the day. Python
  floats are modelled by \<open>real\<close> (no NaN, no infinities, no rounding).
\<close>

record datetime =
  dt_year :: int
  dt_month :: int
  dt_day :: int
  dt_micros :: int

text \<open>Days since 1970-01-01 of a proleptic Gregorian date (what \<^verbatim>\<open>toordinal\<close> counts, shifted).\<close>

definition days_from_civil :: "int \<Rightarrow> int \<Rightarrow> int \<Rightarrow> int" where
  "days_from_civil y m d =
     (let y' = (if m \<le> 2 then y - 1 else y);
          era = y' div 400;
          yoe = y' - era * 400;
          doy = (153 * (if m > 2 then m - 3 else m + 9) + 2) div 5 + d - 1;
          doe = yoe * 365 + yoe div 4 - yoe div 100 + doy
      in era * 146097 + doe - 719468)"

definition timestamp :: "datetime \<Rightarrow> int" where
  "timestamp t = days_from_civil (dt_year t) (dt_month t) (dt_day t) * 86400000000 + dt_micros t"

text \<open>\<^verbatim>\<open>t - timedelta(days=n)\<close> is only ever compared, so it is kept as a timestamp.\<close>

definition minus_days :: "datetime \<Rightarrow> int \<Rightarrow> int" where
  "minus_days t n = timestamp t - n * 86400000000"

text \<open>
  \<^verbatim>\<open>class Transaction(BaseModel)\<close>. \<open>tx_id\<close> is \<open>None\<close> on a freshly built
  object and the string of the store's \<^verbatim>\<open>_id\<close> once read back; object ids are
  modelled by natural numbers.
\<close>

record transaction =
  tx_id :: "nat option"
  user_id :: string
  sms_message_id :: "nat option"
  transaction_type :: transaction_type
  amount :: real
  currency :: string
  merchant :: "string option"
  category :: "string option"
  transaction_date :: datetime
  reference_number :: "string option"
  account_number :: "string option"
  card_number :: "string option"
  payment_method :: "payment_method option"
  remarks :: "string option"
  tags :: "string list"
  is_failed :: bool
  is_recurring :: bool
  created_at :: datetime
  updated_at :: datetime

text \<open>\<^verbatim>\<open>class SMSMessage(BaseModel)\<close>.\<close>

record sms_message =
  sms_id :: "nat option"
  sms_user_id :: string
  sender :: string
  message_text :: string
  sms_timestamp :: datetime
  parsed :: bool
  sms_created_at :: datetime
  sms_updated_at :: datetime

text \<open>\<^verbatim>\<open>class TransactionFilter(BaseModel)\<close>.\<close>

record transaction_filter =
  start_date :: "datetime option"
  end_date :: "datetime option"
  min_amount :: "real option"
  max_amount :: "real option"
  f_transaction_type :: "transaction_type option"
  f_merchant :: "string option"
  f_category :: "string option"
  f_payment_method :: "payment_method option"
  f_is_failed :: "bool option"
  f_tags :: "string list option"
  limit :: int
  offset :: int

text \<open>\<^verbatim>\<open>class AnalyticsResponse(BaseModel)\<close>; the dictionaries are association lists.\<close>

record merchant_row =
  mr_merchant :: string
  mr_count :: nat
  mr_amount :: real

record category_row =
  cr_category :: string
  cr_count :: nat
  cr_amount :: real

record trend_row =
  tr_year :: int
  tr_month :: int
  tr_count :: nat
  tr_amount :: real

record analytics_response =
  total_transactions :: nat
  total_amount :: real
  average_amount :: real
  transaction_count_by_type :: "(transaction_type \<times> nat) list"
  amount_by_type :: "(transaction_type \<times> real) list"
  top_merchants :: "merchant_row list"
  top_categories :: "category_row list"
  monthly_trends :: "trend_row list"
  failed_transactions :: nat
  recurring_transactions :: nat

section \<open>The document store\<close>

text \<open>
  The two collections the services use, in insertion order, and the supply of fresh
  object ids. Every stored transaction and message carries its \<^verbatim>\<open>_id\<close> in
  \<open>tx_id\<close> / \<open>sms_id\<close>. Store operations do not fail in this model.
\<close>

record store =
  transactions :: "transaction list"
  sms_messages :: "sms_message list"
  next_oid :: nat

definition empty_store :: store where
  "empty_store = \<lparr>transactions = [], sms_messages = [], next_oid = 0\<rparr>"

text \<open>\<^verbatim>\<open>transactions_collection.insert_one(transaction.dict())\<close>: returns the new id.\<close>

definition insert_transaction :: "transaction \<Rightarrow> store \<Rightarrow> nat \<times> store" where
  "insert_transaction t st =
     (next_oid st,
      st\<lparr>transactions := transactions st @ [t\<lparr>tx_id := Some (next_oid st)\<rparr>],
         next_oid := Suc (next_oid st)\<rparr>)"

section \<open>Validators of the Transaction model\<close>

definition validate_amount :: "real \<Rightarrow> bool" where
  "validate_amount v = (\<not> v \<le> 0)"

definition is_alnum :: "char \<Rightarrow> bool" where
  "is_alnum c =
     (let n = (of_char c :: nat)
      in (48 \<le> n \<and> n \<le> 57) \<or> (65 \<le> n \<and> n \<le> 90) \<or> (97 \<le> n \<and> n \<le> 122))"

text \<open>
  \<^verbatim>\<open>re.match(r'^[A-Za-z0-9]+$', v)\<close>: one or more alphanumerics; Python's \<^verbatim>\<open>$\<close>
  also matches just before one final newline.
\<close>

definition re_match_alnum :: "string \<Rightarrow> bool" where
  "re_match_alnum v =
     (let body = (if v \<noteq> [] \<and> last v = CHR 0x0A then butlast v else v)
      in body \<noteq> [] \<and> list_all is_alnum body)"

definition validate_reference_number :: "string option \<Rightarrow> bool" where
  "validate_reference_number v =
     (case v of None \<Rightarrow> True
      | Some s \<Rightarrow> \<not> (s \<noteq> [] \<and> \<not> re_match_alnum s))"

text \<open>\<^verbatim>\<open>Transaction(**doc)\<close> on a stored document: the two validators run again.\<close>

definition revalidate :: "transaction \<Rightarrow> bool" where
  "revalidate t = (validate_amount (amount t) \<and> validate_reference_number (reference_number t))"

section \<open>TransactionService: reads and updates\<close>

text \<open>
  \<^verbatim>\<open>find_one({"_id": ObjectId(transaction_id), "user_id": user_id})\<close>. An id string
  that is no object id raises, is caught and gives \<open>None\<close>, like an id no document has.
\<close>

definition matches_id :: "string \<Rightarrow> nat \<Rightarrow> transaction \<Rightarrow> bool" where
  "matches_id uid tid t = (tx_id t = Some tid \<and> user_id t = uid)"

definition get_transaction :: "string \<Rightarrow> nat \<Rightarrow> store \<Rightarrow> transaction option" where
  "get_transaction uid tid st =
     (case find (matches_id uid tid) (transactions st) of
        None \<Rightarrow> None
      | Some t \<Rightarrow> if revalidate t then Some t else None)"

subsection \<open>get_transactions\<close>

text \<open>Python truthiness of the optional filter fields, as the \<^verbatim>\<open>if filters.x:\<close> tests read it.\<close>

definition truthy_float :: "real option \<Rightarrow> bool" where
  "truthy_float v = (case v of None \<Rightarrow> False | Some r \<Rightarrow> r \<noteq> 0)"

definition truthy_str :: "string option \<Rightarrow> bool" where
  "truthy_str v = (case v of None \<Rightarrow> False | Some s \<Rightarrow> s \<noteq> [])"

definition truthy_list :: "'a list option \<Rightarrow> bool" where
  "truthy_list v = (case v of None \<Rightarrow> False | Some l \<Rightarrow> l \<noteq> [])"

text \<open>
  The query dictionary that \<^verbatim>\<open>get_transactions\<close> builds. A range entry holds the
  \<^verbatim>\<open>$gte\<close> and the \<^verbatim>\<open>$lte\<close> operand when present.
\<close>

record query =
  q_user_id :: string
  q_date_gte :: "datetime option"
  q_date_lte :: "datetime option"
  q_amount_gte :: "real option"
  q_amount_lte :: "real option"
  q_transaction_type :: "transaction_type option"
  q_merchant_regex :: "string option"
  q_category :: "string option"
  q_payment_method :: "payment_method option"
  q_is_failed :: "bool option"
  q_tags_in :: "string list option"

definition build_query :: "string \<Rightarrow> transaction_filter \<Rightarrow> query" where
  "build_query uid filters =
     \<lparr>q_user_id = uid,
      q_date_gte = start_date filters,
      q_date_lte = end_date filters,
      q_amount_gte = (if truthy_float (min_amount filters) then min_amount filters else None),
      q_amount_lte = (if truthy_float (max_amount filters) then max_amount filters else None),
      q_transaction_type = f_transaction_type filters,
      q_merchant_regex = (if truthy_str (f_merchant filters) then f_merchant filters else None),
      q_category = (if truthy_str (f_category filters) then f_category filters else None),
      q_payment_method = f_payment_method filters,
      q_is_failed = f_is_failed filters,
      q_tags_in = (if truthy_list (f_tags filters) then f_tags filters else None)\<rparr>"

definition opt_holds :: "'a option \<Rightarrow> ('a \<Rightarrow> bool) \<Rightarrow> bool" where
  "opt_holds c p = (case c of None \<Rightarrow> True | Some x \<Rightarrow> p x)"

text \<open>
  Whether a stored document satisfies the query. \<open>rx\<close> is the store's case-insensitive
  regular-expression search (\<^verbatim>\<open>$regex\<close> with \<^verbatim>\<open>$options: "i"\<close>), a parameter: \<open>rx p\<close>
  is \<open>None\<close> for a pattern the store rejects.
\<close>

definition query_matches :: "(string \<Rightarrow> bool) option \<Rightarrow> query \<Rightarrow> transaction \<Rightarrow> bool" where
  "query_matches search q t =
     (user_id t = q_user_id q
      \<and> opt_holds (q_date_gte q) (\<lambda>d. timestamp d \<le> timestamp (transaction_date t))
      \<and> opt_holds (q_date_lte q) (\<lambda>d. timestamp (transaction_date t) \<le> timestamp d)
      \<and> opt_holds (q_amount_gte q) (\<lambda>a. a \<le> amount t)
      \<and> opt_holds (q_amount_lte q) (\<lambda>a. amount t \<le> a)
      \<and> opt_holds (q_transaction_type q) (\<lambda>k. transaction_type t = k)
      \<and> opt_holds (q_merchant_regex q)
           (\<lambda>_. case (search, merchant t) of (Some s, Some m) \<Rightarrow> s m | _ \<Rightarrow> False)
      \<and> opt_holds (q_category q) (\<lambda>c. category t = Some c)
      \<and> opt_holds (q_payment_method q) (\<lambda>p. payment_method t = Some p)
      \<and> opt_holds (q_is_failed q) (\<lambda>b. is_failed t = b)
      \<and> opt_holds (q_tags_in q) (\<lambda>ts. list_ex (\<lambda>x. x \<in> set ts) (tags t)))"

text \<open>
  \<^verbatim>\<open>.sort("transaction_date", -1).skip(offset).limit(limit)\<close>: a negative skip
  raises; a limit of 0 is no limit and a negative limit counts as its absolute value.
\<close>

definition sort_date_desc :: "transaction list \<Rightarrow> transaction list" where
  "sort_date_desc ts = sort_key (\<lambda>t. - timestamp (transaction_date t)) ts"

definition skip_limit :: "int \<Rightarrow> int \<Rightarrow> 'a list \<Rightarrow> 'a list option" where
  "skip_limit n_skip n_limit xs =
     (if n_skip < 0 then None
      else let ys = drop (nat n_skip) xs
           in Some (if n_limit = 0 then ys else take (nat \<bar>n_limit\<bar>) ys))"

text \<open>Every failure inside \<^verbatim>\<open>get_transactions\<close> is caught and gives the empty list.\<close>

definition get_transactions ::
  "(string \<Rightarrow> (string \<Rightarrow> bool) option) \<Rightarrow> string \<Rightarrow> transaction_filter \<Rightarrow> store \<Rightarrow> transaction list"
where
  "get_transactions rx uid filters st =
     (let q = build_query uid filters;
          search = (case q_merchant_regex q of None \<Rightarrow> Some (\<lambda>_. False) | Some p \<Rightarrow> rx p)
      in if search = None then []
         else case skip_limit (offset filters) (limit filters)
                     (sort_date_desc (filter (query_matches search q) (transactions st))) of
                None \<Rightarrow> []
              | Some docs \<Rightarrow> if list_all revalidate docs then docs else [])"

subsection \<open>update_transaction\<close>

text \<open>
  The update payload is a Python dictionary from field names to values. An item is a
  key bound to \<^verbatim>\<open>None\<close> (\<open>Null\<close>) or a key bound to a value of the field's type
  (\<open>Val\<close>); the dictionary is the list of its items.
\<close>

datatype field =
    F_user_id | F_sms_message_id | F_transaction_type | F_amount | F_currency
  | F_merchant | F_category | F_transaction_date | F_reference_number
  | F_account_number | F_card_number | F_payment_method | F_remarks | F_tags
  | F_is_failed | F_is_recurring | F_created_at | F_updated_at

datatype assignment =
    Set_user_id string | Set_sms_message_id nat | Set_transaction_type transaction_type
  | Set_amount real | Set_currency string | Set_merchant string | Set_category string
  | Set_transaction_date datetime | Set_reference_number string
  | Set_account_number string | Set_card_number string
  | Set_payment_method payment_method | Set_remarks string | Set_tags "string list"
  | Set_is_failed bool | Set_is_recurring bool | Set_created_at datetime
  | Set_updated_at datetime

datatype item = Null field | Val assignment

fun field_of :: "assignment \<Rightarrow> field" where
  "field_of (Set_user_id _) = F_user_id"
| "field_of (Set_sms_message_id _) = F_sms_message_id"
| "field_of (Set_transaction_type _) = F_transaction_type"
| "field_of (Set_amount _) = F_amount"
| "field_of (Set_currency _) = F_currency"
| "field_of (Set_merchant _) = F_merchant"
| "field_of (Set_category _) = F_category"
| "field_of (Set_transaction_date _) = F_transaction_date"
| "field_of (Set_reference_number _) = F_reference_number"
| "field_of (Set_account_number _) = F_account_number"
| "field_of (Set_card_number _) = F_card_number"
| "field_of (Set_payment_method _) = F_payment_method"
| "field_of (Set_remarks _) = F_remarks"
| "field_of (Set_tags _) = F_tags"
| "field_of (Set_is_failed _) = F_is_failed"
| "field_of (Set_is_recurring _) = F_is_recurring"
| "field_of (Set_created_at _) = F_created_at"
| "field_of (Set_updated_at _) = F_updated_at"

fun key_of :: "item \<Rightarrow> field" where
  "key_of (Null f) = f"
| "key_of (Val a) = field_of a"

fun is_None :: "item \<Rightarrow> bool" where
  "is_None (Null _) = True"
| "is_None (Val _) = False"

text \<open>\<^verbatim>\<open>{"$set": {k: v}}\<close> for one key.\<close>

fun set_field :: "assignment \<Rightarrow> transaction \<Rightarrow> transaction" where
  "set_field (Set_user_id v) t = t\<lparr>user_id := v\<rparr>"
| "set_field (Set_sms_message_id v) t = t\<lparr>sms_message_id := Some v\<rparr>"
| "set_field (Set_transaction_type v) t = t\<lparr>transaction_type := v\<rparr>"
| "set_field (Set_amount v) t = t\<lparr>amount := v\<rparr>"
| "set_field (Set_currency v) t = t\<lparr>currency := v\<rparr>"
| "set_field (Set_merchant v) t = t\<lparr>merchant := Some v\<rparr>"
| "set_field (Set_category v) t = t\<lparr>category := Some v\<rparr>"
| "set_field (Set_transaction_date v) t = t\<lparr>transaction_date := v\<rparr>"
| "set_field (Set_reference_number v) t = t\<lparr>reference_number := Some v\<rparr>"
| "set_field (Set_account_number v) t = t\<lparr>account_number := Some v\<rparr>"
| "set_field (Set_card_number v) t = t\<lparr>card_number := Some v\<rparr>"
| "set_field (Set_payment_method v) t = t\<lparr>payment_method := Some v\<rparr>"
| "set_field (Set_remarks v) t = t\<lparr>remarks := Some v\<rparr>"
| "set_field (Set_tags v) t = t\<lparr>tags := v\<rparr>"
| "set_field (Set_is_failed v) t = t\<lparr>is_failed := v\<rparr>"
| "set_field (Set_is_recurring v) t = t\<lparr>is_recurring := v\<rparr>"
| "set_field (Set_created_at v) t = t\<lparr>created_at := v\<rparr>"
| "set_field (Set_updated_at v) t = t\<lparr>updated_at := v\<rparr>"

text \<open>
  The document that \<^verbatim>\<open>$set\<close> receives. An entry writes a value or writes null; null
  can be written to the fields that can hold it, the fields of an \<^verbatim>\<open>Optional\<close> type.
\<close>

datatype nullable =
    N_sms_message_id | N_merchant | N_category | N_reference_number
  | N_account_number | N_card_number | N_payment_method | N_remarks

fun nullable_field :: "nullable \<Rightarrow> field" where
  "nullable_field N_sms_message_id = F_sms_message_id"
| "nullable_field N_merchant = F_merchant"
| "nullable_field N_category = F_category"
| "nullable_field N_reference_number = F_reference_number"
| "nullable_field N_account_number = F_account_number"
| "nullable_field N_card_number = F_card_number"
| "nullable_field N_payment_method = F_payment_method"
| "nullable_field N_remarks = F_remarks"

fun clear_field :: "nullable \<Rightarrow> transaction \<Rightarrow> transaction" where
  "clear_field N_sms_message_id t = t\<lparr>sms_message_id := None\<rparr>"
| "clear_field N_merchant t = t\<lparr>merchant := None\<rparr>"
| "clear_field N_category t = t\<lparr>category := None\<rparr>"
| "clear_field N_reference_number t = t\<lparr>reference_number := None\<rparr>"
| "clear_field N_account_number t = t\<lparr>account_number := None\<rparr>"
| "clear_field N_card_number t = t\<lparr>card_number := None\<rparr>"
| "clear_field N_payment_method t = t\<lparr>payment_method := None\<rparr>"
| "clear_field N_remarks t = t\<lparr>remarks := None\<rparr>"

datatype set_item = Set_null nullable | Set_val assignment

fun set_key :: "set_item \<Rightarrow> field" where
  "set_key (Set_null n) = nullable_field n"
| "set_key (Set_val a) = field_of a"

fun is_Set_val :: "set_item \<Rightarrow> bool" where
  "is_Set_val (Set_null _) = False"
| "is_Set_val (Set_val _) = True"

text \<open>\<^verbatim>\<open>{"$set": document}\<close>: every key of the document is written, a null as null.\<close>

fun dollar_set :: "set_item list \<Rightarrow> transaction \<Rightarrow> transaction" where
  "dollar_set [] t = t"
| "dollar_set (Set_val a # items) t = dollar_set items (set_field a t)"
| "dollar_set (Set_null n # items) t = dollar_set items (clear_field n t)"

text \<open>
  \<^verbatim>\<open>{k: v for k, v in update_data.items() if v is not None}\<close>: the items bound to
  \<^verbatim>\<open>None\<close> are left out, the others are kept as they are.
\<close>

fun not_None :: "item list \<Rightarrow> set_item list" where
  "not_None [] = []"
| "not_None (Null f # items) = not_None items"
| "not_None (Val a # items) = Set_val a # not_None items"

text \<open>\<^verbatim>\<open>update_data[k] = v\<close>: the key's old binding, if any, is replaced.\<close>

definition dict_assign :: "set_item \<Rightarrow> set_item list \<Rightarrow> set_item list" where
  "dict_assign kv items = filter (\<lambda>e. set_key e \<noteq> set_key kv) items @ [kv]"

text \<open>The first two statements of \<^verbatim>\<open>update_transaction\<close>: what is handed to \<^verbatim>\<open>$set\<close>.\<close>

definition set_document :: "datetime \<Rightarrow> item list \<Rightarrow> set_item list" where
  "set_document now update_data = dict_assign (Set_val (Set_updated_at now)) (not_None update_data)"

text \<open>
  \<^verbatim>\<open>update_one(filter, update)\<close>: the first matching document is rewritten; the count
  is \<^verbatim>\<open>modified_count\<close>, 0 when nothing matched or the document did not change.
\<close>

fun update_one ::
  "(transaction \<Rightarrow> bool) \<Rightarrow> (transaction \<Rightarrow> transaction) \<Rightarrow> transaction list
     \<Rightarrow> nat \<times> transaction list"
where
  "update_one p f [] = (0, [])"
| "update_one p f (t # ts) =
     (if p t then ((if f t = t then 0 else 1), f t # ts)
      else (fst (update_one p f ts), t # snd (update_one p f ts)))"

text \<open>
  \<^verbatim>\<open>update_transaction(user_id, transaction_id, update_data)\<close> at clock reading
  \<open>now\<close>; returns the transaction read back (or \<open>None\<close>) and the new store.
\<close>

definition update_transaction ::
  "datetime \<Rightarrow> string \<Rightarrow> nat \<Rightarrow> item list \<Rightarrow> store \<Rightarrow> transaction option \<times> store"
where
  "update_transaction now uid tid update_data st =
     (let result = update_one (matches_id uid tid) (dollar_set (set_document now update_data))
                     (transactions st);
          st' = st\<lparr>transactions := snd result\<rparr>
      in (if fst result > 0 then get_transaction uid tid st' else None, st'))"

text \<open>Reading a field generically: equality of a field in two documents, and nullness.\<close>

fun same_on :: "field \<Rightarrow> transaction \<Rightarrow> transaction \<Rightarrow> bool" where
  "same_on F_user_id a b = (user_id a = user_id b)"
| "same_on F_sms_message_id a b = (sms_message_id a = sms_message_id b)"
| "same_on F_transaction_type a b = (transaction_type a = transaction_type b)"
| "same_on F_amount a b = (amount a = amount b)"
| "same_on F_currency a b = (currency a = currency b)"
| "same_on F_merchant a b = (merchant a = merchant b)"
| "same_on F_category a b = (category a = category b)"
| "same_on F_transaction_date a b = (transaction_date a = transaction_date b)"
| "same_on F_reference_number a b = (reference_number a = reference_number b)"
| "same_on F_account_number a b = (account_number a = account_number b)"
| "same_on F_card_number a b = (card_number a = card_number b)"
| "same_on F_payment_method a b = (payment_method a = payment_method b)"
| "same_on F_remarks a b = (remarks a = remarks b)"
| "same_on F_tags a b = (tags a = tags b)"
| "same_on F_is_failed a b = (is_failed a = is_failed b)"
| "same_on F_is_recurring a b = (is_recurring a = is_recurring b)"
| "same_on F_created_at a b = (created_at a = created_at b)"
| "same_on F_updated_at a b = (updated_at a = updated_at b)"

fun is_null :: "field \<Rightarrow> transaction \<Rightarrow> bool" where
  "is_null F_sms_message_id t = (sms_message_id t = None)"
| "is_null F_merchant t = (merchant t = None)"
| "is_null F_category t = (category t = None)"
| "is_null F_reference_number t = (reference_number t = None)"
| "is_null F_account_number t = (account_number t = None)"
| "is_null F_card_number t = (card_number t = None)"
| "is_null F_payment_method t = (payment_method t = None)"
| "is_null F_remarks t = (remarks t = None)"
| "is_null _ t = False"

text \<open>Whether the payload binds the key to a value other than \<^verbatim>\<open>None\<close>.\<close>

definition writes :: "item list \<Rightarrow> field \<Rightarrow> bool" where
  "writes update_data f = list_ex (\<lambda>e. key_of e = f \<and> \<not> is_None e) update_data"

text \<open>The first document of a list that a predicate holds of, by position.\<close>

definition first_match :: "(transaction \<Rightarrow> bool) \<Rightarrow> transaction list \<Rightarrow> nat \<Rightarrow> bool" where
  "first_match p ts i = (i < length ts \<and> p (ts ! i) \<and> \<not> list_ex p (take i ts))"

section \<open>Python values and library functions\<close>

text \<open>A decoded JSON value, as \<^verbatim>\<open>json.loads\<close> returns it; \<open>JNull\<close> is \<^verbatim>\<open>None\<close>.\<close>

datatype json =
    JNull | JBool bool | JNum real | JStr string
  | JArr "json list" | JObj "(string \<times> json) list"

text \<open>The exceptions that the modelled code can raise.\<close>

datatype exc = TypeError | AttributeError | ValueError | ValidationError | ServiceError

text \<open>
  The library functions whose result the code consumes but which are not part of the
  repository: \<^verbatim>\<open>json.loads\<close> (\<open>None\<close>: \<^verbatim>\<open>JSONDecodeError\<close>), \<^verbatim>\<open>datetime.fromisoformat\<close>,
  \<^verbatim>\<open>float\<close> on a string and \<^verbatim>\<open>base64.b64decode(..).decode('utf-8')\<close> (\<open>None\<close>: the
  call raises).
\<close>

record library =
  json_loads :: "string \<Rightarrow> json option"
  fromisoformat :: "string \<Rightarrow> datetime option"
  float_of_str :: "string \<Rightarrow> real option"
  b64decode_utf8 :: "string \<Rightarrow> string option"

text \<open>What \<^verbatim>\<open>model.generate_content_async(prompt)\<close> gives: it raises, or a response text.\<close>

datatype generate_content = Raises | Text string

fun truthy :: "json \<Rightarrow> bool" where
  "truthy JNull = False"
| "truthy (JBool b) = b"
| "truthy (JNum r) = (r \<noteq> 0)"
| "truthy (JStr s) = (s \<noteq> [])"
| "truthy (JArr xs) = (xs \<noteq> [])"
| "truthy (JObj kvs) = (kvs \<noteq> [])"

text \<open>\<^verbatim>\<open>d.get(k, default)\<close> and \<^verbatim>\<open>d.get(k)\<close>.\<close>

definition dict_get :: "(string \<times> json) list \<Rightarrow> string \<Rightarrow> json \<Rightarrow> json" where
  "dict_get d k dflt = (case map_of d k of None \<Rightarrow> dflt | Some v \<Rightarrow> v)"

text \<open>\<^verbatim>\<open>float(v)\<close>.\<close>

definition py_float :: "library \<Rightarrow> json \<Rightarrow> exc + real" where
  "py_float lib v =
     (case v of
        JNum r \<Rightarrow> Inr r
      | JBool b \<Rightarrow> Inr (if b then 1 else 0)
      | JStr s \<Rightarrow> (case float_of_str lib s of None \<Rightarrow> Inl ValueError | Some r \<Rightarrow> Inr r)
      | _ \<Rightarrow> Inl TypeError)"

text \<open>String helpers, on ASCII: \<^verbatim>\<open>lower\<close>, \<^verbatim>\<open>strip\<close>, \<^verbatim>\<open>startswith\<close>, \<^verbatim>\<open>endswith\<close>, \<^verbatim>\<open>in\<close>, \<^verbatim>\<open>replace\<close>.\<close>

definition lower_char :: "char \<Rightarrow> char" where
  "lower_char c =
     (let n = (of_char c :: nat) in if 65 \<le> n \<and> n \<le> 90 then char_of (n + 32) else c)"

definition lower :: "string \<Rightarrow> string" where
  "lower s = map lower_char s"

definition is_space :: "char \<Rightarrow> bool" where
  "is_space c = (let n = (of_char c :: nat) in (9 \<le> n \<and> n \<le> 13) \<or> (28 \<le> n \<and> n \<le> 32))"

definition strip :: "string \<Rightarrow> string" where
  "strip s = rev (dropWhile is_space (rev (dropWhile is_space s)))"

definition startswith :: "string \<Rightarrow> string \<Rightarrow> bool" where
  "startswith s p = (take (length p) s = p)"

definition endswith :: "string \<Rightarrow> string \<Rightarrow> bool" where
  "endswith s p = (length p \<le> length s \<and> drop (length s - length p) s = p)"

fun str_contains :: "string \<Rightarrow> string \<Rightarrow> bool" where
  "str_contains needle [] = (needle = [])"
| "str_contains needle (c # cs) = (startswith (c # cs) needle \<or> str_contains needle cs)"

definition replace_Z :: "string \<Rightarrow> string" where
  "replace_Z s = concat (map (\<lambda>c. if c = CHR ''Z'' then ''+00:00'' else [c]) s)"

section \<open>SMSParser (services/sms\_parser.py)\<close>

definition convert_transaction_type_str :: "string \<Rightarrow> transaction_type option" where
  "convert_transaction_type_str type_str =
     map_of [(''credit'', CREDIT), (''debit'', DEBIT), (''payment'', PAYMENT),
             (''spent'', SPENT), (''received'', RECEIVED), (''transfer'', TRANSFER)]
            (lower type_str)"

text \<open>\<^verbatim>\<open>_convert_transaction_type\<close>: a value that is no string has no \<^verbatim>\<open>lower\<close>.\<close>

definition convert_transaction_type :: "json \<Rightarrow> exc + transaction_type option" where
  "convert_transaction_type v =
     (case v of JStr s \<Rightarrow> Inr (convert_transaction_type_str s) | _ \<Rightarrow> Inl AttributeError)"

definition convert_payment_method_str :: "string \<Rightarrow> payment_method option" where
  "convert_payment_method_str method_str =
     map_of [(''upi'', UPI), (''card'', CARD), (''neft'', NEFT), (''imps'', IMPS),
             (''rtgs'', RTGS), (''cash'', CASH), (''wallet'', WALLET)]
            (lower method_str)"

definition convert_payment_method :: "json \<Rightarrow> exc + payment_method option" where
  "convert_payment_method v =
     (case v of JStr s \<Rightarrow> Inr (convert_payment_method_str s) | _ \<Rightarrow> Inl AttributeError)"

text \<open>
  \<^verbatim>\<open>_parse_date_from_gemini\<close>: the bare \<^verbatim>\<open>except\<close> turns every failure, also that of
  \<^verbatim>\<open>replace\<close> on a value that is no string, into the current time \<open>now\<close>.
\<close>

definition parse_date_from_gemini :: "library \<Rightarrow> datetime \<Rightarrow> json \<Rightarrow> datetime" where
  "parse_date_from_gemini lib now v =
     (case v of
        JStr s \<Rightarrow> (case fromisoformat lib (replace_Z s) of None \<Rightarrow> now | Some d \<Rightarrow> d)
      | _ \<Rightarrow> now)"

text \<open>
  The keyword dictionary from which \<^verbatim>\<open>Transaction(**data)\<close> is built. The parser
  fills it from the classifier's answer; values it passes on unchanged stay JSON values.
  \<open>d_detection\<close> holds \<^verbatim>\<open>detection_confidence\<close> and \<^verbatim>\<open>detection_reason\<close>, which only
  the single-message parser adds.
\<close>

record transaction_data =
  d_sms_message_id :: "nat option"
  d_transaction_type :: transaction_type
  d_amount :: real
  d_currency :: json
  d_merchant :: json
  d_category :: json
  d_transaction_date :: datetime
  d_reference_number :: json
  d_account_number :: json
  d_card_number :: json
  d_payment_method :: "payment_method option"
  d_remarks :: json
  d_tags :: "string list"
  d_is_failed :: json
  d_detection :: "(json \<times> json) option"

text \<open>The mapping from a classifier entry \<open>d\<close> that both parsers end with.\<close>

definition extract_fields :: "library \<Rightarrow> datetime \<Rightarrow> (string \<times> json) list \<Rightarrow> bool \<Rightarrow> exc + transaction_data option" where
  "extract_fields lib now d single =
     (case convert_transaction_type (dict_get d ''transaction_type'' (JStr [])) of
        Inl e \<Rightarrow> Inl e
      | Inr None \<Rightarrow> Inr None
      | Inr (Some ttype) \<Rightarrow>
          (case convert_payment_method (dict_get d ''payment_method'' (JStr [])) of
             Inl e \<Rightarrow> Inl e
           | Inr pm \<Rightarrow>
               (case py_float lib (dict_get d ''amount'' JNull) of
                  Inl e \<Rightarrow> Inl e
                | Inr a \<Rightarrow>
                    Inr (Some \<lparr>d_sms_message_id = None,
                       d_transaction_type = ttype,
                       d_amount = a,
                       d_currency = dict_get d ''currency'' (JStr ''INR''),
                       d_merchant = dict_get d ''merchant'' JNull,
                       d_category = JNull,
                       d_transaction_date =
                         parse_date_from_gemini lib now (dict_get d ''transaction_date'' (JStr [])),
                       d_reference_number = dict_get d ''reference_number'' JNull,
                       d_account_number = dict_get d ''account_number'' JNull,
                       d_card_number = dict_get d ''card_number'' JNull,
                       d_payment_method = pm,
                       d_remarks = dict_get d ''remarks'' JNull,
                       d_tags = [],
                       d_is_failed = dict_get d ''is_failed'' (JBool False),
                       d_detection =
                         (if single
                          then Some (dict_get d ''confidence'' (JNum 0),
                                     dict_get d ''reason'' (JStr ''Unknown''))
                          else None)\<rparr>))))"

text \<open>Stripping the response and its markdown fence, then \<^verbatim>\<open>json.loads\<close>.\<close>

definition clean_json_text :: "string \<Rightarrow> string" where
  "clean_json_text text =
     (let t1 = strip text;
          t2 = (if startswith t1 ''```json'' then drop 7 t1 else t1);
          t3 = (if endswith t2 ''```'' then take (length t2 - 3) t2 else t2)
      in strip t3)"

text \<open>
  The body of the outer \<^verbatim>\<open>try\<close> of \<^verbatim>\<open>process_sms_intelligently\<close>: \<open>Inl\<close> is an
  exception reaching \<^verbatim>\<open>except Exception\<close>, \<open>Inr None\<close> an explicit \<^verbatim>\<open>return None\<close>.
  A parser object exists only with \<^verbatim>\<open>use_gemini\<close> true.
\<close>

definition process_sms_body ::
  "library \<Rightarrow> datetime \<Rightarrow> generate_content \<Rightarrow> exc + transaction_data option"
where
  "process_sms_body lib now response =
     (case response of
        Raises \<Rightarrow> Inl ServiceError
      | Text text \<Rightarrow>
          (if text = [] then Inr None
           else (case json_loads lib (clean_json_text text) of
                   None \<Rightarrow> Inr None
                 | Some (JObj parsed_data) \<Rightarrow>
                     (if \<not> truthy (dict_get parsed_data ''is_transaction'' (JBool False))
                      then Inr None
                      else if map_of parsed_data ''amount'' = None then Inr None
                      else extract_fields lib now parsed_data True)
                 | Some _ \<Rightarrow> Inl AttributeError)))"

definition process_sms_intelligently ::
  "library \<Rightarrow> datetime \<Rightarrow> generate_content \<Rightarrow> transaction_data option"
where
  "process_sms_intelligently lib now response =
     (case process_sms_body lib now response of Inl e \<Rightarrow> None | Inr r \<Rightarrow> r)"

text \<open>
  \<^verbatim>\<open>"amount" not in tx_data\<close> for a truthy entry: key membership in a dictionary,
  substring in a string, element in a list, a \<^verbatim>\<open>TypeError\<close> otherwise.
\<close>

definition amount_not_in :: "json \<Rightarrow> exc + bool" where
  "amount_not_in tx_data =
     (case tx_data of
        JObj d \<Rightarrow> Inr (map_of d ''amount'' = None)
      | JStr s \<Rightarrow> Inr (\<not> str_contains ''amount'' s)
      | JArr xs \<Rightarrow> Inr (JStr ''amount'' \<notin> set xs)
      | _ \<Rightarrow> Inl TypeError)"

text \<open>The \<^verbatim>\<open>for tx_data in transactions_data\<close> loop of the batch parser.\<close>

fun valid_transactions :: "library \<Rightarrow> datetime \<Rightarrow> json list \<Rightarrow> exc + transaction_data list" where
  "valid_transactions lib now [] = Inr []"
| "valid_transactions lib now (tx_data # rest) =
     (if \<not> truthy tx_data then valid_transactions lib now rest
      else case amount_not_in tx_data of
             Inl e \<Rightarrow> Inl e
           | Inr True \<Rightarrow> valid_transactions lib now rest
           | Inr False \<Rightarrow>
               (case tx_data of
                  JObj d \<Rightarrow>
                    (case extract_fields lib now d False of
                       Inl e \<Rightarrow> Inl e
                     | Inr None \<Rightarrow> valid_transactions lib now rest
                     | Inr (Some tx) \<Rightarrow>
                         (case valid_transactions lib now rest of
                            Inl e \<Rightarrow> Inl e
                          | Inr txs \<Rightarrow> Inr (tx # txs)))
                | _ \<Rightarrow> Inl AttributeError))"

definition parse_backup_file_body ::
  "library \<Rightarrow> datetime \<Rightarrow> generate_content \<Rightarrow> exc + transaction_data list"
where
  "parse_backup_file_body lib now response =
     (case response of
        Raises \<Rightarrow> Inl ServiceError
      | Text text \<Rightarrow>
          (if text = [] then Inr []
           else (case json_loads lib (clean_json_text text) of
                   None \<Rightarrow> Inr []
                 | Some (JArr transactions_data) \<Rightarrow>
                     valid_transactions lib now transactions_data
                 | Some _ \<Rightarrow> Inr [])))"

definition parse_backup_file_with_gemini ::
  "library \<Rightarrow> datetime \<Rightarrow> generate_content \<Rightarrow> transaction_data list"
where
  "parse_backup_file_with_gemini lib now response =
     (case parse_backup_file_body lib now response of Inl e \<Rightarrow> [] | Inr txs \<Rightarrow> txs)"

section \<open>Building and creating transactions\<close>

text \<open>
  Field validation of \<^verbatim>\<open>Transaction(**data)\<close> for the keys that arrive as JSON values:
  a \<^verbatim>\<open>str\<close> field takes a string only, an \<^verbatim>\<open>Optional[str]\<close> field also
  \<^verbatim>\<open>None\<close>, a \<^verbatim>\<open>bool\<close> field the booleans, 0 and 1, and the usual spellings.
\<close>

definition pyd_str :: "json \<Rightarrow> exc + string" where
  "pyd_str v = (case v of JStr s \<Rightarrow> Inr s | _ \<Rightarrow> Inl ValidationError)"

definition pyd_opt_str :: "json \<Rightarrow> exc + string option" where
  "pyd_opt_str v =
     (case v of JNull \<Rightarrow> Inr None | JStr s \<Rightarrow> Inr (Some s) | _ \<Rightarrow> Inl ValidationError)"

definition pyd_bool :: "json \<Rightarrow> exc + bool" where
  "pyd_bool v =
     (case v of
        JBool b \<Rightarrow> Inr b
      | JNum r \<Rightarrow> if r = 0 then Inr False else if r = 1 then Inr True else Inl ValidationError
      | JStr s \<Rightarrow>
          if lower s \<in> set [''0'', ''off'', ''f'', ''false'', ''n'', ''no''] then Inr False
          else if lower s \<in> set [''1'', ''on'', ''t'', ''true'', ''y'', ''yes''] then Inr True
          else Inl ValidationError
      | _ \<Rightarrow> Inl ValidationError)"

text \<open>
  \<^verbatim>\<open>Transaction(**transaction_data)\<close> with \<^verbatim>\<open>user_id\<close> set: every field is checked
  and any failure raises one \<^verbatim>\<open>ValidationError\<close>. \<^verbatim>\<open>created_at\<close> and
  \<^verbatim>\<open>updated_at\<close> default to the clock reading \<open>now\<close>.
\<close>

definition construct_transaction :: "datetime \<Rightarrow> string \<Rightarrow> transaction_data \<Rightarrow> exc + transaction" where
  "construct_transaction now uid data =
     (let cur = pyd_str (d_currency data);
          mer = pyd_opt_str (d_merchant data);
          cat = pyd_opt_str (d_category data);
          ref = pyd_opt_str (d_reference_number data);
          acc = pyd_opt_str (d_account_number data);
          crd = pyd_opt_str (d_card_number data);
          rem = pyd_opt_str (d_remarks data);
          fld = pyd_bool (d_is_failed data)
      in if isl cur \<or> isl mer \<or> isl cat \<or> isl ref \<or> isl acc \<or> isl crd \<or> isl rem \<or> isl fld
         then Inl ValidationError
         else if \<not> validate_amount (d_amount data) then Inl ValidationError
         else if \<not> validate_reference_number (projr ref) then Inl ValidationError
         else Inr \<lparr>tx_id = None,
                   user_id = uid,
                   sms_message_id = d_sms_message_id data,
                   transaction_type = d_transaction_type data,
                   amount = d_amount data,
                   currency = projr cur,
                   merchant = projr mer,
                   category = projr cat,
                   transaction_date = d_transaction_date data,
                   reference_number = projr ref,
                   account_number = projr acc,
                   card_number = projr crd,
                   payment_method = d_payment_method data,
                   remarks = projr rem,
                   tags = d_tags data,
                   is_failed = projr fld,
                   is_recurring = False,
                   created_at = now,
                   updated_at = now\<rparr>)"

text \<open>The table of \<^verbatim>\<open>_auto_categorize_transaction\<close>, in the dictionary's order.\<close>

definition category_mapping :: "(string \<times> string list) list" where
  "category_mapping =
     [(''grocery'', [''grocery'', ''supermarket'', ''food'', ''restaurant'', ''cafe'', ''swiggy'',
                     ''zomato'', ''blinkit'', ''bigbasket'']),
      (''transport'', [''uber'', ''ola'', ''metro'', ''bus'', ''train'', ''fuel'', ''petrol'', ''diesel'']),
      (''shopping'', [''amazon'', ''flipkart'', ''myntra'', ''shopping'', ''mall'', ''store'']),
      (''entertainment'', [''netflix'', ''prime'', ''hotstar'', ''movie'', ''cinema'', ''theatre'']),
      (''utilities'', [''electricity'', ''water'', ''gas'', ''internet'', ''mobile'', ''airtel'', ''jio'']),
      (''healthcare'', [''hospital'', ''clinic'', ''pharmacy'', ''medical'', ''doctor'']),
      (''education'', [''school'', ''college'', ''university'', ''course'', ''training'']),
      (''travel'', [''hotel'', ''flight'', ''booking'', ''travel'', ''tourism''])]"

definition auto_categorize_transaction :: "datetime \<Rightarrow> transaction \<Rightarrow> store \<Rightarrow> store" where
  "auto_categorize_transaction now t st =
     (if \<not> truthy_str (merchant t) \<or> truthy_str (category t) then st
      else case (merchant t, tx_id t) of
             (Some m, Some tid) \<Rightarrow>
               (case find (\<lambda>(c, keywords). list_ex (\<lambda>keyword. str_contains keyword (lower m)) keywords)
                          category_mapping of
                  None \<Rightarrow> st
                | Some (c, keywords) \<Rightarrow>
                    snd (update_transaction now (user_id t) tid [Val (Set_category c)] st))
           | _ \<Rightarrow> st)"

text \<open>
  \<^verbatim>\<open>create_transaction(user_id, transaction_data)\<close>: the transaction object with its new
  id (or \<open>None\<close> when building it raised) and the new store.
\<close>

definition create_transaction ::
  "datetime \<Rightarrow> string \<Rightarrow> transaction_data \<Rightarrow> store \<Rightarrow> transaction option \<times> store"
where
  "create_transaction now uid data st =
     (case construct_transaction now uid data of
        Inl e \<Rightarrow> (None, st)
      | Inr t \<Rightarrow>
          (let ins = insert_transaction t st;
               t' = t\<lparr>tx_id := Some (fst ins)\<rparr>
           in (Some t', auto_categorize_transaction now t' (snd ins))))"

section \<open>SMSService (services/sms\_service.py)\<close>



fun mark_first :: "datetime \<Rightarrow> nat \<Rightarrow> sms_message list \<Rightarrow> sms_message list" where
  "mark_first now sid [] = []"
| "mark_first now sid (m # ms) =
     (if sms_id m = Some sid then m\<lparr>parsed := True, sms_updated_at := now\<rparr> # ms
      else m # mark_first now sid ms)"

definition mark_sms_as_parsed :: "datetime \<Rightarrow> nat \<Rightarrow> store \<Rightarrow> store" where
  "mark_sms_as_parsed now sid st = st\<lparr>sms_messages := mark_first now sid (sms_messages st)\<rparr>"

text \<open>The dictionary \<^verbatim>\<open>process_sms_for_transactions\<close> returns for a created transaction.\<close>

record sms_result =
  res_sms_id :: "nat option"
  res_transaction_id :: "nat option"
  res_transaction_type :: transaction_type
  res_amount :: real
  res_merchant :: "string option"
  res_detection :: "(json \<times> json) option"

text \<open>
  \<^verbatim>\<open>process_sms_for_transactions(user_id, sms_message)\<close>, given the classifier's
  response to this message.
\<close>

definition process_sms_for_transactions ::
  "library \<Rightarrow> datetime \<Rightarrow> generate_content \<Rightarrow> string \<Rightarrow> sms_message \<Rightarrow> store
     \<Rightarrow> sms_result option \<times> store"
where
  "process_sms_for_transactions lib now response uid sms st =
     (case process_sms_intelligently lib now response of
        None \<Rightarrow> (None, st)
      | Some parsed_data \<Rightarrow>
          (case create_transaction now uid (parsed_data\<lparr>d_sms_message_id := sms_id sms\<rparr>) st of
             (None, st1) \<Rightarrow> (None, st1)
           | (Some t, st1) \<Rightarrow>
               (Some \<lparr>res_sms_id = sms_id sms, res_transaction_id = tx_id t,
                      res_transaction_type = transaction_type t, res_amount = amount t,
                      res_merchant = merchant t, res_detection = d_detection parsed_data\<rparr>,
                case sms_id sms of None \<Rightarrow> st1 | Some sid \<Rightarrow> mark_sms_as_parsed now sid st1)))"










section \<open>BackupService (services/backup\_service.py)\<close>

record backup_file_upload =
  file_type :: string
  file_content :: string
  filename :: string

record created_row =
  c_id :: "nat option"
  c_amount :: real
  c_merchant :: "string option"
  c_transaction_type :: transaction_type
  c_transaction_date :: datetime

text \<open>An entry of \<^verbatim>\<open>errors\<close>: the message names the amount and the merchant.\<close>

datatype backup_error = Failed_to_create real json

record backup_result =
  success :: bool
  transactions_found :: nat
  transactions_created :: nat
  created_transactions :: "created_row list option"
  errors :: "backup_error list"

text \<open>The \<^verbatim>\<open>for tx_data in transactions_data\<close> loop of \<^verbatim>\<open>process_backup_file\<close>.\<close>

fun create_all ::
  "datetime \<Rightarrow> string \<Rightarrow> transaction_data list \<Rightarrow> store
     \<Rightarrow> created_row list \<times> backup_error list \<times> store"
where
  "create_all now uid [] st = ([], [], st)"
| "create_all now uid (tx_data # rest) st =
     (let r = create_transaction now uid tx_data st;
          rs = create_all now uid rest (snd r)
      in case fst r of
           Some t \<Rightarrow>
             (\<lparr>c_id = tx_id t, c_amount = amount t, c_merchant = merchant t,
               c_transaction_type = transaction_type t,
               c_transaction_date = transaction_date t\<rparr> # fst rs,
              fst (snd rs), snd (snd rs))
         | None \<Rightarrow>
             (fst rs, Failed_to_create (d_amount tx_data) (d_merchant tx_data) # fst (snd rs),
              snd (snd rs)))"

text \<open>
  \<^verbatim>\<open>process_backup_file(user_id, backup_data)\<close>; \<open>gemini\<close> is the classifier's response
  to the decoded content and the declared file type.
\<close>

definition process_backup_file ::
  "library \<Rightarrow> datetime \<Rightarrow> (string \<Rightarrow> string \<Rightarrow> generate_content) \<Rightarrow> string
     \<Rightarrow> backup_file_upload \<Rightarrow> store \<Rightarrow> backup_result \<times> store"
where
  "process_backup_file lib now gemini uid backup_data st =
     (let content = (case b64decode_utf8 lib (file_content backup_data) of
                       None \<Rightarrow> file_content backup_data
                     | Some s \<Rightarrow> s);
          transactions_data =
            parse_backup_file_with_gemini lib now (gemini content (file_type backup_data))
      in if transactions_data = []
         then (\<lparr>success = True, transactions_found = 0, transactions_created = 0,
                 created_transactions = None, errors = []\<rparr>, st)
         else (let r = create_all now uid transactions_data st
               in (\<lparr>success = True,
                     transactions_found = length transactions_data,
                     transactions_created = length (fst r),
                     created_transactions = Some (fst r),
                     errors = fst (snd r)\<rparr>, snd (snd r))))"

section \<open>Aggregation pipelines of TransactionService\<close>

text \<open>
  A \<^verbatim>\<open>$group\<close> stage: one group per distinct key with the documents that have it,
  in document order. The store leaves the order of the groups open; the model lists
  them by the last occurrence of their key. A \<^verbatim>\<open>$sort\<close> stage is a stable sort.
\<close>

definition group_by :: "('a \<Rightarrow> 'k) \<Rightarrow> 'a list \<Rightarrow> ('k \<times> 'a list) list" where
  "group_by f xs = map (\<lambda>k. (k, filter (\<lambda>x. f x = k) xs)) (remdups (map f xs))"

definition sum_amount :: "transaction list \<Rightarrow> real" where
  "sum_amount ts = sum_list (map amount ts)"

subsection \<open>get_analytics\<close>

definition analytics_match :: "string \<Rightarrow> datetime option \<Rightarrow> datetime option \<Rightarrow> transaction \<Rightarrow> bool" where
  "analytics_match uid start_d end_d t =
     (user_id t = uid
      \<and> opt_holds start_d (\<lambda>d. timestamp d \<le> timestamp (transaction_date t))
      \<and> opt_holds end_d (\<lambda>d. timestamp (transaction_date t) \<le> timestamp d))"

definition top10_by_amount :: "(string option \<times> transaction list) list \<Rightarrow> (string option \<times> transaction list) list" where
  "top10_by_amount groups = take 10 (sort_key (\<lambda>g. - sum_amount (snd g)) groups)"

definition get_analytics :: "string \<Rightarrow> datetime option \<Rightarrow> datetime option \<Rightarrow> store \<Rightarrow> analytics_response" where
  "get_analytics uid start_d end_d st =
     (let docs = filter (analytics_match uid start_d end_d) (transactions st)
      in if docs = []
         then \<lparr>total_transactions = 0, total_amount = 0, average_amount = 0,
                transaction_count_by_type = [], amount_by_type = [],
                top_merchants = [], top_categories = [], monthly_trends = [],
                failed_transactions = 0, recurring_transactions = 0\<rparr>
         else
           (let type_results = group_by transaction_type docs;
                merchant_results = top10_by_amount (group_by merchant docs);
                category_results = top10_by_amount (group_by category docs);
                trend_results =
                  sort_key (\<lambda>g. fst (fst g))
                    (sort_key (\<lambda>g. snd (fst g))
                       (group_by (\<lambda>t. (dt_year (transaction_date t), dt_month (transaction_date t))) docs))
            in \<lparr>total_transactions = length docs,
                 total_amount = sum_amount docs,
                 average_amount = sum_amount docs / real (length docs),
                 transaction_count_by_type = map (\<lambda>g. (fst g, length (snd g))) type_results,
                 amount_by_type = map (\<lambda>g. (fst g, sum_amount (snd g))) type_results,
                 top_merchants =
                   map (\<lambda>g. \<lparr>mr_merchant = (case fst g of Some m \<Rightarrow> m | None \<Rightarrow> []),
                              mr_count = length (snd g), mr_amount = sum_amount (snd g)\<rparr>)
                     (filter (\<lambda>g. truthy_str (fst g)) merchant_results),
                 top_categories =
                   map (\<lambda>g. \<lparr>cr_category = (case fst g of Some c \<Rightarrow> c | None \<Rightarrow> []),
                              cr_count = length (snd g), cr_amount = sum_amount (snd g)\<rparr>)
                     (filter (\<lambda>g. truthy_str (fst g)) category_results),
                 monthly_trends =
                   map (\<lambda>g. \<lparr>tr_year = fst (fst g), tr_month = snd (fst g),
                              tr_count = length (snd g), tr_amount = sum_amount (snd g)\<rparr>)
                     trend_results,
                 failed_transactions = length (filter is_failed docs),
                 recurring_transactions = length (filter is_recurring docs)\<rparr>))"

subsection \<open>detect_recurring_transactions\<close>

text \<open>An element of a group's \<^verbatim>\<open>transactions\<close> array, and a returned group.\<close>

record member =
  m_id :: "nat option"
  m_transaction_date :: datetime
  m_amount :: real

record recurring_group =
  g_merchant :: "string option"
  g_amount :: real
  g_day_of_month :: int
  g_frequency :: nat
  g_transactions :: "member list"

text \<open>The first \<^verbatim>\<open>$match\<close>: the owner, the trailing 180 days, a merchant that is not null.\<close>

definition recurring_match :: "datetime \<Rightarrow> string \<Rightarrow> transaction \<Rightarrow> bool" where
  "recurring_match now uid t =
     (user_id t = uid
      \<and> minus_days now 180 \<le> timestamp (transaction_date t)
      \<and> merchant t \<noteq> None)"

definition recurring_key :: "transaction \<Rightarrow> string option \<times> real \<times> int" where
  "recurring_key t = (merchant t, amount t, dt_day (transaction_date t))"

definition to_member :: "transaction \<Rightarrow> member" where
  "to_member t = \<lparr>m_id = tx_id t, m_transaction_date = transaction_date t, m_amount = amount t\<rparr>"

text \<open>The pipeline: match, group, keep the groups of at least two, sort by count descending.\<close>

definition recurring_pipeline ::
  "datetime \<Rightarrow> string \<Rightarrow> transaction list \<Rightarrow> ((string option \<times> real \<times> int) \<times> transaction list) list"
where
  "recurring_pipeline now uid ts =
     sort_key (\<lambda>g. - int (length (snd g)))
       (filter (\<lambda>g. 2 \<le> length (snd g))
          (group_by recurring_key (filter (recurring_match now uid) ts)))"

definition to_group :: "(string option \<times> real \<times> int) \<times> transaction list \<Rightarrow> recurring_group" where
  "to_group g =
     \<lparr>g_merchant = fst (fst g), g_amount = fst (snd (fst g)), g_day_of_month = snd (snd (fst g)),
      g_frequency = length (snd g), g_transactions = map to_member (snd g)\<rparr>"

text \<open>
  The inner loop: \<^verbatim>\<open>update_transaction(user_id, str(tx["id"]), {"is_recurring": True})\<close>
  for every member; the results of the updates are not looked at.
\<close>

fun mark_members :: "datetime \<Rightarrow> string \<Rightarrow> member list \<Rightarrow> store \<Rightarrow> store" where
  "mark_members stamp uid [] st = st"
| "mark_members stamp uid (tx # rest) st =
     mark_members stamp uid rest
       (case m_id tx of
          None \<Rightarrow> st
        | Some tid \<Rightarrow> snd (update_transaction stamp uid tid [Val (Set_is_recurring True)] st))"

fun mark_groups :: "datetime \<Rightarrow> string \<Rightarrow> recurring_group list \<Rightarrow> store \<Rightarrow> store" where
  "mark_groups stamp uid [] st = st"
| "mark_groups stamp uid (g # rest) st =
     mark_groups stamp uid rest
       (if 2 \<le> g_frequency g then mark_members stamp uid (g_transactions g) st else st)"

text \<open>
  \<^verbatim>\<open>detect_recurring_transactions(user_id)\<close>: \<open>now\<close> is the clock reading that fixes
  the window, \<open>stamp\<close> the one the updates write into \<^verbatim>\<open>updated_at\<close>.
\<close>

definition detect_recurring_transactions ::
  "datetime \<Rightarrow> datetime \<Rightarrow> string \<Rightarrow> store \<Rightarrow> recurring_group list \<times> store"
where
  "detect_recurring_transactions now stamp uid st =
     (let results = map to_group (recurring_pipeline now uid (transactions st))
      in (filter (\<lambda>g. 2 \<le> g_frequency g) results, mark_groups stamp uid results st))"

text \<open>The transactions of the window that carry a given grouping key.\<close>

definition members_of :: "datetime \<Rightarrow> string \<Rightarrow> store \<Rightarrow> string option \<times> real \<times> int \<Rightarrow> transaction list" where
  "members_of now uid st k =
     filter (\<lambda>t. recurring_match now uid t \<and> recurring_key t = k) (transactions st)"

definition group_key :: "recurring_group \<Rightarrow> string option \<times> real \<times> int" where
  "group_key g = (g_merchant g, g_amount g, g_day_of_month g)"

text \<open>Every stored transaction has its own object id.\<close>

definition unique_ids :: "store \<Rightarrow> bool" where
  "unique_ids st =
     (distinct (map tx_id (transactions st)) \<and> None \<notin> set (map tx_id (transactions st)))"

text \<open>What the \<^verbatim>\<open>$set\<close> of the detector's loop does to a document.\<close>

definition flag :: "datetime \<Rightarrow> transaction \<Rightarrow> transaction" where
  "flag stamp t = t\<lparr>is_recurring := True, updated_at := stamp\<rparr>"

text \<open>A transaction of the window whose grouping key at least two transactions share.\<close>

definition in_recurrence :: "datetime \<Rightarrow> string \<Rightarrow> store \<Rightarrow> transaction \<Rightarrow> bool" where
  "in_recurrence now uid st t =
     (recurring_match now uid t \<and> 2 \<le> length (members_of now uid st (recurring_key t)))"

text \<open>The store's ids are distinct and were all handed out by the id supply.\<close>

definition ids_allocated :: "store \<Rightarrow> bool" where
  "ids_allocated st =
     (unique_ids st
      \<and> list_all (\<lambda>t. case tx_id t of None \<Rightarrow> False | Some i \<Rightarrow> i < next_oid st) (transactions st))"

section \<open>Example data\<close>

definition mk_date :: "int \<Rightarrow> int \<Rightarrow> int \<Rightarrow> datetime" where
  "mk_date y m d = \<lparr>dt_year = y, dt_month = m, dt_day = d, dt_micros = 0\<rparr>"

definition mk_tx :: "nat \<Rightarrow> string \<Rightarrow> string option \<Rightarrow> real \<Rightarrow> datetime \<Rightarrow> transaction" where
  "mk_tx i uid m a d =
     \<lparr>tx_id = Some i, user_id = uid, sms_message_id = None, transaction_type = DEBIT,
      amount = a, currency = ''INR'', merchant = m, category = None, transaction_date = d,
      reference_number = None, account_number = None, card_number = None,
      payment_method = None, remarks = None, tags = [], is_failed = False,
      is_recurring = False, created_at = d, updated_at = d\<rparr>"

text \<open>
  Three Netflix charges of 199 on the 5th of March, April and May 2025 and a fourth
  charge of 199 by another merchant, looked at on 10 June 2025.
\<close>

definition netflix_store :: store where
  "netflix_store =
     \<lparr>transactions =
        [mk_tx 0 ''u1'' (Some ''Netflix'') 199 (mk_date 2025 3 5),
         mk_tx 1 ''u1'' (Some ''Netflix'') 199 (mk_date 2025 4 5),
         mk_tx 2 ''u1'' (Some ''Spotify'') 199 (mk_date 2025 5 5),
         mk_tx 3 ''u1'' (Some ''Netflix'') 199 (mk_date 2025 5 5)],
      sms_messages = [], next_oid = 4\<rparr>"

text \<open>One categorized purchase.\<close>

definition categorized_store :: store where
  "categorized_store =
     \<lparr>transactions = [(mk_tx 0 ''u1'' (Some ''Amazon'') 500 (mk_date 2025 1 15))\<lparr>category := Some ''shopping''\<rparr>],
      sms_messages = [], next_oid = 1\<rparr>"

text \<open>
  A stand-in for the library functions, defined on the sample responses only, and the
  sample responses: a non-transactional answer, the card purchase of the parser's
  prompt, the same purchase without a date, without an amount and with a negative
  amount, and a statement of three entries whose second entry has no amount.
\<close>

definition otp_response :: string where
  \<open>otp_response =
     ''{"is_transaction": false, "confidence": 0.9, "reason": "OTP message, no transaction details"}''\<close>

definition amazon_response :: string where
  \<open>amazon_response =
     ''{"is_transaction": true, "transaction_type": "spent", "amount": 500, "currency": "INR", "merchant": "Amazon", "transaction_date": "2025-01-15T12:00:00", "payment_method": "card", "is_failed": false, "confidence": 0.95, "reason": "Contains amount and spending information"}''\<close>

definition undated_response :: string where
  \<open>undated_response =
     ''{"is_transaction": true, "transaction_type": "spent", "amount": 500, "merchant": "Amazon", "payment_method": "card"}''\<close>

definition statement_response :: string where
  \<open>statement_response =
     ''[{"transaction_type": "spent", "amount": 500, "merchant": "Amazon", "transaction_date": "2025-01-15T12:00:00"}, {"transaction_type": "spent", "merchant": "Netflix", "transaction_date": "2025-01-14T12:00:00"}, {"transaction_type": "received", "amount": 1000, "merchant": "Salary", "transaction_date": "2025-01-15T12:00:00"}]''\<close>

definition no_amount_response :: string where
  \<open>no_amount_response =
     ''{"is_transaction": true, "transaction_type": "spent", "currency": "INR", "merchant": "Amazon", "confidence": 0.8, "reason": "Contains spending information"}''\<close>

definition negative_response :: string where
  \<open>negative_response =
     ''{"is_transaction": true, "transaction_type": "spent", "amount": -5, "merchant": "Amazon"}''\<close>

definition no_amount_entry :: "(string \<times> json) list" where
  "no_amount_entry =
     [(''is_transaction'', JBool True), (''transaction_type'', JStr ''spent''),
      (''currency'', JStr ''INR''), (''merchant'', JStr ''Amazon''), (''confidence'', JNum 0.8),
      (''reason'', JStr ''Contains spending information'')]"

definition negative_entry :: "(string \<times> json) list" where
  "negative_entry =
     [(''is_transaction'', JBool True), (''transaction_type'', JStr ''spent''),
      (''amount'', JNum (- 5)), (''merchant'', JStr ''Amazon'')]"

definition amazon_entry :: "(string \<times> json) list" where
  "amazon_entry =
     [(''is_transaction'', JBool True), (''transaction_type'', JStr ''spent''), (''amount'', JNum 500),
      (''currency'', JStr ''INR''), (''merchant'', JStr ''Amazon''),
      (''transaction_date'', JStr ''2025-01-15T12:00:00''), (''payment_method'', JStr ''card''),
      (''is_failed'', JBool False), (''confidence'', JNum 0.95),
      (''reason'', JStr ''Contains amount and spending information'')]"

definition undated_entry :: "(string \<times> json) list" where
  "undated_entry =
     [(''is_transaction'', JBool True), (''transaction_type'', JStr ''spent''), (''amount'', JNum 500),
      (''merchant'', JStr ''Amazon''), (''payment_method'', JStr ''card'')]"

definition statement_entries :: "json list" where
  "statement_entries =
     [JObj [(''transaction_type'', JStr ''spent''), (''amount'', JNum 500),
            (''merchant'', JStr ''Amazon''), (''transaction_date'', JStr ''2025-01-15T12:00:00'')],
      JObj [(''transaction_type'', JStr ''spent''), (''merchant'', JStr ''Netflix''),
            (''transaction_date'', JStr ''2025-01-14T12:00:00'')],
      JObj [(''transaction_type'', JStr ''received''), (''amount'', JNum 1000),
            (''merchant'', JStr ''Salary''), (''transaction_date'', JStr ''2025-01-15T12:00:00'')]]"

definition stub_library :: library where
  "stub_library =
     \<lparr>json_loads =
        map_of [(otp_response,
                 JObj [(''is_transaction'', JBool False), (''confidence'', JNum 0.9),
                       (''reason'', JStr ''OTP message, no transaction details'')]),
                (amazon_response, JObj amazon_entry),
                (undated_response, JObj undated_entry),
                (no_amount_response, JObj no_amount_entry),
                (negative_response, JObj negative_entry),
                (statement_response, JArr statement_entries)],
      fromisoformat =
        map_of [(''2025-01-15T12:00:00'',
                 \<lparr>dt_year = 2025, dt_month = 1, dt_day = 15, dt_micros = 43200000000\<rparr>),
                (''2025-01-14T12:00:00'',
                 \<lparr>dt_year = 2025, dt_month = 1, dt_day = 14, dt_micros = 43200000000\<rparr>)],
      float_of_str = (\<lambda>s. None),
      b64decode_utf8 = (\<lambda>s. None)\<rparr>"

text \<open>The upload of the three-entry statement and what \<open>process_backup_file\<close> returns for it.\<close>

definition statement_upload :: backup_file_upload where
  "statement_upload =
     \<lparr>file_type = ''csv'', file_content = ''three lines'', filename = ''statement.csv''\<rparr>"

definition statement_result :: backup_result where
  "statement_result =
     fst (process_backup_file stub_library (mk_date 2025 6 10) (\<lambda>content ftype. Text statement_response)
            ''u1'' statement_upload empty_store)"

text \<open>Whether a batch entry is a dictionary with the key \<^verbatim>\<open>amount\<close>.\<close>

definition has_amount :: "json \<Rightarrow> bool" where
  "has_amount e = (case e of JObj d \<Rightarrow> map_of d ''amount'' \<noteq> None | _ \<Rightarrow> False)"

text \<open>Whether the date field of a classifier entry is a string that parses.\<close>

definition date_parses :: "library \<Rightarrow> (string \<times> json) list \<Rightarrow> bool" where
  "date_parses lib d =
     (case dict_get d ''transaction_date'' (JStr []) of
        JStr s \<Rightarrow> fromisoformat lib (replace_Z s) \<noteq> None
      | _ \<Rightarrow> False)"

text \<open>What the parser makes of the sample response with a negative amount.\<close>

definition negative_data :: transaction_data where
  "negative_data =
     \<lparr>d_sms_message_id = None, d_transaction_type = SPENT, d_amount = - 5,
      d_currency = JStr ''INR'', d_merchant = JStr ''Amazon'', d_category = JNull,
      d_transaction_date = mk_date 2025 6 10, d_reference_number = JNull,
      d_account_number = JNull, d_card_number = JNull, d_payment_method = None,
      d_remarks = JNull, d_tags = [], d_is_failed = JBool False,
      d_detection = Some (JNum 0, JStr ''Unknown'')\<rparr>"

text \<open>A saved, unparsed message.\<close>

definition sample_sms :: sms_message where
  "sample_sms =
     \<lparr>sms_id = Some 0, sms_user_id = ''u1'', sender = ''TEST-BANK'',
      message_text = ''Rs 500 spent on card at Amazon'', sms_timestamp = mk_date 2025 6 10,
      parsed = False, sms_created_at = mk_date 2025 6 10, sms_updated_at = mk_date 2025 6 10\<rparr>"

definition sample_sms_store :: store where
  "sample_sms_store = \<lparr>transactions = [], sms_messages = [sample_sms], next_oid = 1\<rparr>"






text \<open>
  A well-formed batch entry: a dictionary whose transaction type is a word of the
  vocabulary, whose payment method, if given, is a string, whose amount converts to a
  positive number and whose other fields have the types the Transaction model takes.
\<close>

definition is_str :: "json \<Rightarrow> bool" where
  "is_str v = (case v of JStr s \<Rightarrow> True | _ \<Rightarrow> False)"

definition is_opt_str :: "json \<Rightarrow> bool" where
  "is_opt_str v = (case v of JNull \<Rightarrow> True | JStr s \<Rightarrow> True | _ \<Rightarrow> False)"

definition is_object :: "json \<Rightarrow> bool" where
  "is_object e = (case e of JObj d \<Rightarrow> True | _ \<Rightarrow> False)"

definition well_formed_entry :: "library \<Rightarrow> (string \<times> json) list \<Rightarrow> bool" where
  "well_formed_entry lib d =
     ((case dict_get d ''transaction_type'' (JStr []) of
         JStr s \<Rightarrow> convert_transaction_type_str s \<noteq> None
       | _ \<Rightarrow> False)
      \<and> is_str (dict_get d ''payment_method'' (JStr []))
      \<and> (case py_float lib (dict_get d ''amount'' JNull) of Inl e \<Rightarrow> False | Inr a \<Rightarrow> 0 < a)
      \<and> is_str (dict_get d ''currency'' (JStr ''INR''))
      \<and> is_opt_str (dict_get d ''merchant'' JNull)
      \<and> (case dict_get d ''reference_number'' JNull of
            JNull \<Rightarrow> True
          | JStr s \<Rightarrow> s = [] \<or> re_match_alnum s
          | _ \<Rightarrow> False)
      \<and> is_opt_str (dict_get d ''account_number'' JNull)
      \<and> is_opt_str (dict_get d ''card_number'' JNull)
      \<and> is_opt_str (dict_get d ''remarks'' JNull)
      \<and> \<not> isl (pyd_bool (dict_get d ''is_failed'' (JBool False))))"

definition well_formed :: "library \<Rightarrow> json \<Rightarrow> bool" where
  "well_formed lib e = (case e of JObj d \<Rightarrow> map_of d ''amount'' \<noteq> None \<and> well_formed_entry lib d | _ \<Rightarrow> False)"

text \<open>The keyword dictionaries from which \<^verbatim>\<open>Transaction(**data)\<close> builds without raising.\<close>

definition accepted :: "transaction_data \<Rightarrow> bool" where
  "accepted data =
     (\<not> isl (pyd_str (d_currency data)) \<and> \<not> isl (pyd_opt_str (d_merchant data))
      \<and> \<not> isl (pyd_opt_str (d_category data)) \<and> \<not> isl (pyd_opt_str (d_reference_number data))
      \<and> \<not> isl (pyd_opt_str (d_account_number data)) \<and> \<not> isl (pyd_opt_str (d_card_number data))
      \<and> \<not> isl (pyd_opt_str (d_remarks data)) \<and> \<not> isl (pyd_bool (d_is_failed data))
      \<and> validate_amount (d_amount data)
      \<and> validate_reference_number (projr (pyd_opt_str (d_reference_number data))))"

section \<open>Properties\<close>

subsection \<open>The listing filter\<close>

lemma build_query_min_zero:
  "build_query uid (filters\<lparr>min_amount := Some 0\<rparr>) = build_query uid (filters\<lparr>min_amount := None\<rparr>)"
  by (simp add: build_query_def truthy_float_def)

lemma build_query_max_zero:
  "build_query uid (filters\<lparr>max_amount := Some 0\<rparr>) = build_query uid (filters\<lparr>max_amount := None\<rparr>)"
  by (simp add: build_query_def truthy_float_def)

text \<open>
  C10. A bound of 0 on the amount range puts no constraint into the query, and the
  listing equals that of the same filter without the bound.
\<close>

theorem get_transactions_zero_bound_ignored:
  "q_amount_gte (build_query uid (filters\<lparr>min_amount := Some 0\<rparr>)) = None
   \<and> q_amount_lte (build_query uid (filters\<lparr>max_amount := Some 0\<rparr>)) = None
   \<and> get_transactions rx uid (filters\<lparr>min_amount := Some 0\<rparr>) st
       = get_transactions rx uid (filters\<lparr>min_amount := None\<rparr>) st
   \<and> get_transactions rx uid (filters\<lparr>max_amount := Some 0\<rparr>) st
       = get_transactions rx uid (filters\<lparr>max_amount := None\<rparr>) st"
proof -
  have "q_amount_gte (build_query uid (filters\<lparr>min_amount := Some 0\<rparr>)) = None"
    by (simp add: build_query_def truthy_float_def)
  moreover have "q_amount_lte (build_query uid (filters\<lparr>max_amount := Some 0\<rparr>)) = None"
    by (simp add: build_query_def truthy_float_def)
  moreover have "get_transactions rx uid (filters\<lparr>min_amount := Some 0\<rparr>) st
       = get_transactions rx uid (filters\<lparr>min_amount := None\<rparr>) st"
    by (simp add: get_transactions_def build_query_min_zero Let_def)
  moreover have "get_transactions rx uid (filters\<lparr>max_amount := Some 0\<rparr>) st
       = get_transactions rx uid (filters\<lparr>max_amount := None\<rparr>) st"
    by (simp add: get_transactions_def build_query_max_zero Let_def)
  ultimately show ?thesis by blast
qed

subsection \<open>Updates\<close>

lemma same_on_refl: "same_on f t t"
  by (cases f) simp_all

lemma same_on_trans: "same_on f a b \<Longrightarrow> same_on f b c \<Longrightarrow> same_on f a c"
  by (cases f) simp_all

lemma set_field_frame: "field_of a \<noteq> f \<Longrightarrow> same_on f t (set_field a t)"
  by (cases a; cases f) simp_all

lemma clear_field_frame: "nullable_field n \<noteq> f \<Longrightarrow> same_on f t (clear_field n t)"
  by (cases n; cases f) simp_all

lemma set_field_null: "is_null f (set_field a t) \<Longrightarrow> is_null f t"
  by (cases a; cases f) simp_all

text \<open>What \<^verbatim>\<open>$set\<close> does with a key bound to null: the stored value is cleared.\<close>

lemma dollar_set_writes_null: "category (dollar_set [Set_null N_category] t) = None"
  by simp

lemma dollar_set_frame:
  "\<not> list_ex (\<lambda>e. set_key e = f) items \<Longrightarrow> same_on f t (dollar_set items t)"
proof (induction items t rule: dollar_set.induct)
  case (1 t)
  then show ?case by (simp add: same_on_refl)
next
  case (2 a items t)
  then have "same_on f (set_field a t) (dollar_set items (set_field a t))"
    by simp
  moreover from 2 have "same_on f t (set_field a t)"
    by (simp add: set_field_frame)
  ultimately show ?case by (simp add: same_on_trans)
next
  case (3 n items t)
  then have "same_on f (clear_field n t) (dollar_set items (clear_field n t))"
    by simp
  moreover from 3 have "same_on f t (clear_field n t)"
    by (simp add: clear_field_frame)
  ultimately show ?case by (simp add: same_on_trans)
qed

lemma dollar_set_null:
  "list_all is_Set_val items \<Longrightarrow> is_null f (dollar_set items t) \<Longrightarrow> is_null f t"
proof (induction items t rule: dollar_set.induct)
  case (2 a items t)
  then have "is_null f (set_field a t)" by simp
  then show ?case by (rule set_field_null)
qed simp_all

lemma dollar_set_append: "dollar_set (xs @ ys) t = dollar_set ys (dollar_set xs t)"
  by (induction xs t rule: dollar_set.induct) simp_all

lemma not_None_vals: "list_all is_Set_val (not_None update_data)"
  by (induction update_data rule: not_None.induct) simp_all

lemma not_None_keys:
  "list_ex (\<lambda>e. set_key e = f) (not_None update_data) = writes update_data f"
  by (induction update_data rule: not_None.induct) (simp_all add: writes_def)

lemma set_document_vals: "list_all is_Set_val (set_document now update_data)"
  using not_None_vals [of update_data]
  by (simp add: set_document_def dict_assign_def list_all_iff)

lemma set_document_keys:
  "f \<noteq> F_updated_at \<Longrightarrow>
   list_ex (\<lambda>e. set_key e = f) (set_document now update_data) = writes update_data f"
  using not_None_keys [of f update_data]
  by (auto simp: set_document_def dict_assign_def list_ex_iff)

lemma set_document_updated_at:
  "updated_at (dollar_set (set_document now update_data) t) = now"
  by (simp add: set_document_def dict_assign_def dollar_set_append)

lemma length_update_one: "length (snd (update_one p g ts)) = length ts"
  by (induction ts) simp_all

lemma update_one_nth:
  "i < length ts \<Longrightarrow> snd (update_one p g ts) ! i = ts ! i \<or> snd (update_one p g ts) ! i = g (ts ! i)"
proof (induction ts arbitrary: i)
  case Nil
  then show ?case by simp
next
  case (Cons t ts)
  then show ?case by (cases i) auto
qed

lemma update_one_first:
  "i < length ts \<Longrightarrow>
   snd (update_one p g ts) ! i = (if first_match p ts i then g (ts ! i) else ts ! i)"
proof (induction ts arbitrary: i)
  case Nil
  then show ?case by simp
next
  case (Cons t ts)
  show ?case
  proof (cases i)
    case 0
    then show ?thesis by (simp add: first_match_def)
  next
    case (Suc k)
    with Cons.prems have k: "k < length ts" by simp
    show ?thesis
    proof (cases "p t")
      case True
      with Suc show ?thesis by (simp add: first_match_def)
    next
      case False
      then have "first_match p (t # ts) (Suc k) = first_match p ts k"
        by (simp add: first_match_def)
      with False Suc Cons.IH [OF k] show ?thesis by simp
    qed
  qed
qed

lemma transactions_update_transaction:
  "transactions (snd (update_transaction now uid tid update_data st))
     = snd (update_one (matches_id uid tid) (dollar_set (set_document now update_data))
              (transactions st))"
  by (simp add: update_transaction_def Let_def)

text \<open>
  C9, as amended. The document handed to \<open>$set\<close> binds no key to null: the keys of the
  payload bound to \<^verbatim>\<open>None\<close> are removed before writing, and \<open>updated_at\<close> is added.
  An update keeps the number of documents; it rewrites the first document that has the
  id and the owner, whose \<open>updated_at\<close> becomes the clock reading, and no other; in
  every document each field other than \<open>updated_at\<close> that the payload does not bind
  to a value other than \<^verbatim>\<open>None\<close> keeps its stored value, and a field that is null
  afterwards was null before.
\<close>

theorem update_transaction_frame:
  assumes "i < length (transactions st)"
  shows "list_all is_Set_val (set_document now update_data)
         \<and> length (transactions (snd (update_transaction now uid tid update_data st)))
           = length (transactions st)
         \<and> (f \<noteq> F_updated_at \<and> \<not> writes update_data f \<longrightarrow>
              same_on f (transactions st ! i)
                (transactions (snd (update_transaction now uid tid update_data st)) ! i))
         \<and> (is_null f (transactions (snd (update_transaction now uid tid update_data st)) ! i) \<longrightarrow>
              is_null f (transactions st ! i))
         \<and> (if first_match (matches_id uid tid) (transactions st) i
            then transactions (snd (update_transaction now uid tid update_data st)) ! i
                   = dollar_set (set_document now update_data) (transactions st ! i)
                 \<and> updated_at (transactions (snd (update_transaction now uid tid update_data st)) ! i)
                   = now
            else transactions (snd (update_transaction now uid tid update_data st)) ! i
                   = transactions st ! i)"
proof -
  let ?items = "set_document now update_data"
  let ?ts' = "transactions (snd (update_transaction now uid tid update_data st))"
  have eq: "?ts' = snd (update_one (matches_id uid tid) (dollar_set ?items) (transactions st))"
    by (rule transactions_update_transaction)
  have vals: "list_all is_Set_val ?items"
    by (rule set_document_vals)
  have len: "length ?ts' = length (transactions st)"
    unfolding eq by (rule length_update_one)
  from assms have alt: "?ts' ! i = transactions st ! i \<or> ?ts' ! i = dollar_set ?items (transactions st ! i)"
    unfolding eq by (rule update_one_nth)
  have frame: "same_on f (transactions st ! i) (?ts' ! i)"
    if "f \<noteq> F_updated_at" "\<not> writes update_data f"
  proof -
    from that have "\<not> list_ex (\<lambda>e. set_key e = f) ?items"
      by (simp add: set_document_keys)
    then have "same_on f (transactions st ! i) (dollar_set ?items (transactions st ! i))"
      by (rule dollar_set_frame)
    with alt show ?thesis by (auto simp: same_on_refl)
  qed
  have null: "is_null f (transactions st ! i)" if "is_null f (?ts' ! i)"
    using alt that vals by (auto dest: dollar_set_null)
  from assms have first: "?ts' ! i =
      (if first_match (matches_id uid tid) (transactions st) i
       then dollar_set ?items (transactions st ! i) else transactions st ! i)"
    unfolding eq by (rule update_one_first)
  have matched: "if first_match (matches_id uid tid) (transactions st) i
            then ?ts' ! i = dollar_set ?items (transactions st ! i) \<and> updated_at (?ts' ! i) = now
            else ?ts' ! i = transactions st ! i"
    using first by (simp add: set_document_updated_at)
  from vals len frame null matched show ?thesis by blast
qed

theorem update_transaction_frame_witness:
  "0 < length (transactions categorized_store)
   \<and> F_category \<noteq> F_updated_at
   \<and> \<not> writes [Null F_category, Val (Set_remarks ''gift'')] F_category
   \<and> first_match (matches_id ''u1'' 0) (transactions categorized_store) 0
   \<and> set_document (mk_date 2025 6 11) [Null F_category, Val (Set_remarks ''gift'')]
       = [Set_val (Set_remarks ''gift''), Set_val (Set_updated_at (mk_date 2025 6 11))]
   \<and> category (transactions (snd (update_transaction (mk_date 2025 6 11) ''u1'' 0
         [Null F_category, Val (Set_remarks ''gift'')] categorized_store)) ! 0) = Some ''shopping''
   \<and> remarks (transactions (snd (update_transaction (mk_date 2025 6 11) ''u1'' 0
         [Null F_category, Val (Set_remarks ''gift'')] categorized_store)) ! 0) = Some ''gift''
   \<and> updated_at (transactions (snd (update_transaction (mk_date 2025 6 11) ''u1'' 0
         [Null F_category, Val (Set_remarks ''gift'')] categorized_store)) ! 0) = mk_date 2025 6 11"
  using update_transaction_frame [of 0 categorized_store "mk_date 2025 6 11"
      "[Null F_category, Val (Set_remarks ''gift'')]" "''u1''" 0 F_category]
  by (simp add: categorized_store_def mk_tx_def writes_def update_transaction_def
      set_document_def dict_assign_def matches_id_def first_match_def Let_def)

text \<open>
  The claim as stated fails for \<open>updated_at\<close>: an update with an empty payload
  still overwrites it.
\<close>

theorem update_transaction_overwrites_updated_at:
  "\<not> writes [] F_updated_at
   \<and> \<not> same_on F_updated_at (transactions categorized_store ! 0)
        (transactions (snd (update_transaction (mk_date 2025 6 11) ''u1'' 0 [] categorized_store)) ! 0)"
  by (simp add: categorized_store_def mk_tx_def writes_def update_transaction_def
      set_document_def dict_assign_def matches_id_def mk_date_def Let_def)

subsection \<open>Analytics\<close>

text \<open>
  C8. When no transaction of the owner lies in the window, \<open>get_analytics\<close> returns the
  snapshot with all counts and sums zero and all collections empty.
\<close>

theorem get_analytics_no_match:
  assumes "filter (analytics_match uid start_d end_d) (transactions st) = []"
  shows "get_analytics uid start_d end_d st =
           \<lparr>total_transactions = 0, total_amount = 0, average_amount = 0,
            transaction_count_by_type = [], amount_by_type = [],
            top_merchants = [], top_categories = [], monthly_trends = [],
            failed_transactions = 0, recurring_transactions = 0\<rparr>"
  using assms by (simp add: get_analytics_def)

theorem get_analytics_no_match_witness:
  "filter (analytics_match ''u1'' (Some (mk_date 2025 6 1)) None) (transactions netflix_store) = []
   \<and> get_analytics ''u1'' (Some (mk_date 2025 6 1)) None netflix_store =
           \<lparr>total_transactions = 0, total_amount = 0, average_amount = 0,
            transaction_count_by_type = [], amount_by_type = [],
            top_merchants = [], top_categories = [], monthly_trends = [],
            failed_transactions = 0, recurring_transactions = 0\<rparr>"
proof -
  have h: "filter (analytics_match ''u1'' (Some (mk_date 2025 6 1)) None) (transactions netflix_store) = []"
    by (simp add: analytics_match_def netflix_store_def mk_tx_def opt_holds_def timestamp_def
        mk_date_def days_from_civil_def)
  from h get_analytics_no_match [OF h] show ?thesis by simp
qed

subsection \<open>Grouping and sorting\<close>

lemma set_group_by:
  "set (group_by f xs) = (\<lambda>k. (k, filter (\<lambda>x. f x = k) xs)) ` f ` set xs"
  by (auto simp: group_by_def)

lemma distinct_group_by: "distinct (map fst (group_by f xs))"
  by (simp add: group_by_def comp_def)

lemma in_recurring_pipeline:
  "g \<in> set (recurring_pipeline now uid (transactions st)) \<longleftrightarrow>
     snd g = members_of now uid st (fst g) \<and> 2 \<le> length (snd g)"
proof
  assume "g \<in> set (recurring_pipeline now uid (transactions st))"
  then have "g \<in> set (group_by recurring_key (filter (recurring_match now uid) (transactions st)))"
    and l: "2 \<le> length (snd g)"
    by (simp_all add: recurring_pipeline_def)
  then obtain k where "g = (k, filter (\<lambda>x. recurring_key x = k) (filter (recurring_match now uid) (transactions st)))"
    unfolding set_group_by by blast
  then have "snd g = members_of now uid st (fst g)"
    by (simp add: members_of_def)
  with l show "snd g = members_of now uid st (fst g) \<and> 2 \<le> length (snd g)" by simp
next
  assume a: "snd g = members_of now uid st (fst g) \<and> 2 \<le> length (snd g)"
  then have "snd g \<noteq> []" by auto
  then obtain t where "t \<in> set (snd g)"
    by (cases "snd g") auto
  with a have t: "t \<in> set (filter (recurring_match now uid) (transactions st))" "recurring_key t = fst g"
    by (auto simp: members_of_def)
  have g: "g = (fst g, filter (\<lambda>x. recurring_key x = fst g) (filter (recurring_match now uid) (transactions st)))"
    using a by (simp add: members_of_def prod_eq_iff)
  from t have "fst g \<in> recurring_key ` set (filter (recurring_match now uid) (transactions st))"
    by (metis imageI)
  then have "g \<in> set (group_by recurring_key (filter (recurring_match now uid) (transactions st)))"
    unfolding set_group_by using g by (rule rev_image_eqI)
  moreover from a have "2 \<le> length (snd g)" ..
  ultimately show "g \<in> set (recurring_pipeline now uid (transactions st))"
    by (simp add: recurring_pipeline_def)
qed

lemma distinct_recurring_pipeline: "distinct (map fst (recurring_pipeline now uid ts))"
proof -
  let ?G = "group_by recurring_key (filter (recurring_match now uid) ts)"
  let ?F = "filter (\<lambda>g. 2 \<le> length (snd g)) ?G"
  have d: "distinct (map fst ?F)"
    by (rule distinct_map_filter) (rule distinct_group_by)
  then have "distinct ?F" and "inj_on fst (set ?F)"
    by (simp_all add: distinct_map)
  then have "distinct (sort_key (\<lambda>g. - int (length (snd g))) ?F)"
    and "inj_on fst (set (sort_key (\<lambda>g. - int (length (snd g))) ?F))"
    by simp_all
  then show ?thesis
    unfolding recurring_pipeline_def by (simp add: distinct_map)
qed

lemma sorted_recurring_pipeline:
  "sorted_wrt (\<lambda>a b. length (snd b) \<le> length (snd a)) (recurring_pipeline now uid ts)"
proof -
  have "sorted (map (\<lambda>g. - int (length (snd g))) (recurring_pipeline now uid ts))"
    unfolding recurring_pipeline_def by (rule sorted_sort_key)
  then show ?thesis
    by (simp add: sorted_map)
qed

subsection \<open>Marking the members\<close>

lemma flag_simps [simp]:
  "tx_id (flag stamp t) = tx_id t"
  "user_id (flag stamp t) = user_id t"
  "merchant (flag stamp t) = merchant t"
  "amount (flag stamp t) = amount t"
  "transaction_date (flag stamp t) = transaction_date t"
  "is_recurring (flag stamp t) = True"
  "flag stamp (flag stamp t) = flag stamp t"
  by (simp_all add: flag_def)

lemma update_one_map:
  "distinct (map tx_id ts) \<Longrightarrow>
   snd (update_one (matches_id uid tid) g ts) = map (\<lambda>t. if matches_id uid tid t then g t else t) ts"
proof (induction ts)
  case Nil
  then show ?case by simp
next
  case (Cons t ts)
  show ?case
  proof (cases "matches_id uid tid t")
    case True
    with Cons.prems have "\<forall>x \<in> set ts. \<not> matches_id uid tid x"
      by (force simp: matches_id_def)
    then have "map (\<lambda>t. if matches_id uid tid t then g t else t) ts = ts"
      by (simp add: map_idI)
    with True show ?thesis by simp
  next
    case False
    with Cons show ?thesis by simp
  qed
qed

lemma update_transaction_flag:
  "snd (update_transaction stamp uid tid [Val (Set_is_recurring True)] st) =
     st\<lparr>transactions := snd (update_one (matches_id uid tid) (flag stamp) (transactions st))\<rparr>"
proof -
  have "dollar_set [Set_val (Set_is_recurring True), Set_val (Set_updated_at stamp)] = flag stamp"
    by (rule ext) (simp add: flag_def)
  then show ?thesis
    by (simp add: update_transaction_def set_document_def dict_assign_def Let_def)
qed

lemma mark_members_map:
  assumes "distinct (map tx_id (transactions st))" and "None \<notin> set (map tx_id (transactions st))"
  shows "mark_members stamp uid ms st =
           st\<lparr>transactions :=
                map (\<lambda>t. if user_id t = uid \<and> tx_id t \<in> set (map m_id ms) then flag stamp t else t)
                  (transactions st)\<rparr>"
  using assms
proof (induction ms arbitrary: st)
  case Nil
  then show ?case by simp
next
  case (Cons m ms)
  let ?st1 = "case m_id m of None \<Rightarrow> st
              | Some tid \<Rightarrow> snd (update_transaction stamp uid tid [Val (Set_is_recurring True)] st)"
  let ?h1 = "\<lambda>t. if user_id t = uid \<and> tx_id t = m_id m then flag stamp t else t"
  have st1: "?st1 = st\<lparr>transactions := map ?h1 (transactions st)\<rparr>"
  proof (cases "m_id m")
    case None
    with Cons.prems(2) have "map ?h1 (transactions st) = transactions st"
      by (intro map_idI) force
    with None show ?thesis by simp
  next
    case (Some tid)
    have "map (\<lambda>t. if matches_id uid tid t then flag stamp t else t) (transactions st)
            = map ?h1 (transactions st)"
      using Some by (intro map_cong) (auto simp: matches_id_def)
    with Some Cons.prems(1) show ?thesis
      by (simp add: update_transaction_flag update_one_map)
  qed
  have ids: "map tx_id (transactions ?st1) = map tx_id (transactions st)"
    unfolding st1 by (simp add: comp_def)
  from Cons.prems ids have "distinct (map tx_id (transactions ?st1))"
    and "None \<notin> set (map tx_id (transactions ?st1))"
    by simp_all
  then have "mark_members stamp uid ms ?st1 =
               ?st1\<lparr>transactions :=
                 map (\<lambda>t. if user_id t = uid \<and> tx_id t \<in> set (map m_id ms) then flag stamp t else t)
                   (transactions ?st1)\<rparr>"
    by (rule Cons.IH)
  also have "\<dots> = st\<lparr>transactions :=
                 map (\<lambda>t. if user_id t = uid \<and> tx_id t \<in> set (map m_id (m # ms)) then flag stamp t else t)
                   (transactions st)\<rparr>"
  proof -
    have "(\<lambda>t. if user_id t = uid \<and> tx_id t \<in> set (map m_id ms) then flag stamp t else t) (?h1 t)
            = (if user_id t = uid \<and> tx_id t \<in> set (map m_id (m # ms)) then flag stamp t else t)" for t
      by (cases "user_id t = uid \<and> tx_id t = m_id m") auto
    then show ?thesis
      unfolding st1 by (simp add: comp_def)
  qed
  finally show ?case by simp
qed

lemma mark_groups_map:
  assumes "distinct (map tx_id (transactions st))" and "None \<notin> set (map tx_id (transactions st))"
  shows "mark_groups stamp uid gs st =
           st\<lparr>transactions :=
                map (\<lambda>t. if user_id t = uid
                            \<and> (\<exists>g \<in> set gs. 2 \<le> g_frequency g \<and> tx_id t \<in> set (map m_id (g_transactions g)))
                          then flag stamp t else t)
                  (transactions st)\<rparr>"
  using assms
proof (induction gs arbitrary: st)
  case Nil
  then show ?case by simp
next
  case (Cons g gs)
  let ?c1 = "\<lambda>t. user_id t = uid \<and> 2 \<le> g_frequency g \<and> tx_id t \<in> set (map m_id (g_transactions g))"
  let ?h1 = "\<lambda>t. if ?c1 t then flag stamp t else t"
  let ?st1 = "if 2 \<le> g_frequency g then mark_members stamp uid (g_transactions g) st else st"
  have st1: "?st1 = st\<lparr>transactions := map ?h1 (transactions st)\<rparr>"
    using Cons.prems by (simp add: mark_members_map)
  have ids: "map tx_id (transactions ?st1) = map tx_id (transactions st)"
    unfolding st1 by (simp add: comp_def)
  from Cons.prems ids have "distinct (map tx_id (transactions ?st1))"
    and "None \<notin> set (map tx_id (transactions ?st1))"
    by simp_all
  then have "mark_groups stamp uid gs ?st1 =
               ?st1\<lparr>transactions :=
                 map (\<lambda>t. if user_id t = uid
                            \<and> (\<exists>g \<in> set gs. 2 \<le> g_frequency g \<and> tx_id t \<in> set (map m_id (g_transactions g)))
                          then flag stamp t else t)
                   (transactions ?st1)\<rparr>"
    by (rule Cons.IH)
  also have "\<dots> = st\<lparr>transactions :=
                map (\<lambda>t. if user_id t = uid
                            \<and> (\<exists>g \<in> set (g # gs). 2 \<le> g_frequency g \<and> tx_id t \<in> set (map m_id (g_transactions g)))
                          then flag stamp t else t)
                  (transactions st)\<rparr>"
    (is "?st1\<lparr>transactions := map ?hR (transactions ?st1)\<rparr> = st\<lparr>transactions := map ?h (transactions st)\<rparr>")
  proof -
    have pt: "?hR (?h1 t) = ?h t" for t
      by (cases "?c1 t") auto
    have e: "map ?hR (map ?h1 (transactions st)) = map ?h (transactions st)"
      unfolding map_map by (rule map_cong [OF refl]) (simp only: comp_def pt)
    have "?st1\<lparr>transactions := map ?hR (transactions ?st1)\<rparr>
            = st\<lparr>transactions := map ?hR (map ?h1 (transactions st))\<rparr>"
      unfolding st1 by simp
    also have "\<dots> = st\<lparr>transactions := map ?h (transactions st)\<rparr>"
      by (simp only: e)
    finally show ?thesis .
  qed
  finally show ?case by simp
qed

lemma members_of_subset: "t \<in> set (members_of now uid st k) \<Longrightarrow> t \<in> set (transactions st)"
  by (simp add: members_of_def)

lemma in_members_of:
  "t \<in> set (members_of now uid st k) \<longleftrightarrow>
     t \<in> set (transactions st) \<and> recurring_match now uid t \<and> recurring_key t = k"
  by (auto simp: members_of_def)

text \<open>With distinct object ids the detector's loop rewrites exactly the members of the groups.\<close>

lemma transactions_detect:
  assumes "unique_ids st"
  shows "snd (detect_recurring_transactions now stamp uid st) =
           st\<lparr>transactions :=
                map (\<lambda>t. if in_recurrence now uid st t then flag stamp t else t) (transactions st)\<rparr>"
proof -
  let ?P = "recurring_pipeline now uid (transactions st)"
  let ?c = "\<lambda>t. user_id t = uid
                \<and> (\<exists>g \<in> set (map to_group ?P). 2 \<le> g_frequency g \<and> tx_id t \<in> set (map m_id (g_transactions g)))"
  from assms have d: "distinct (map tx_id (transactions st))"
    and n: "None \<notin> set (map tx_id (transactions st))"
    by (simp_all add: unique_ids_def)
  have inj: "inj_on tx_id (set (transactions st))"
    using d by (simp add: distinct_map)
  have "?c t = in_recurrence now uid st t" if t: "t \<in> set (transactions st)" for t
  proof
    assume c: "?c t"
    then obtain p where p: "p \<in> set ?P" and m: "tx_id t \<in> set (map m_id (g_transactions (to_group p)))"
      by auto
    from m obtain t' where t': "t' \<in> set (snd p)" and e: "tx_id t' = tx_id t"
      by (auto simp: to_group_def to_member_def)
    from p have sp: "snd p = members_of now uid st (fst p)" and l: "2 \<le> length (snd p)"
      by (auto simp: in_recurring_pipeline)
    from t' sp have "t' \<in> set (transactions st)"
      by (simp add: members_of_subset)
    with inj t e have "t' = t" by (auto dest: inj_onD)
    with t' sp have "recurring_match now uid t" "recurring_key t = fst p"
      by (simp_all add: in_members_of)
    with sp l show "in_recurrence now uid st t"
      by (simp add: in_recurrence_def)
  next
    assume r: "in_recurrence now uid st t"
    let ?p = "(recurring_key t, members_of now uid st (recurring_key t))"
    from r have "?p \<in> set ?P"
      by (simp add: in_recurring_pipeline in_recurrence_def)
    then have "to_group ?p \<in> set (map to_group ?P)"
      by (simp only: set_map) (rule imageI)
    moreover from r t have "t \<in> set (snd ?p)"
      by (simp add: in_members_of in_recurrence_def)
    then have "tx_id t \<in> set (map m_id (g_transactions (to_group ?p)))"
      by (force simp: to_group_def to_member_def)
    moreover from r have "2 \<le> g_frequency (to_group ?p)"
      by (simp add: to_group_def in_recurrence_def)
    moreover from r have "user_id t = uid"
      by (simp add: in_recurrence_def recurring_match_def)
    ultimately show "?c t" by blast
  qed
  then have "map (\<lambda>t. if ?c t then flag stamp t else t) (transactions st)
           = map (\<lambda>t. if in_recurrence now uid st t then flag stamp t else t) (transactions st)"
    by (intro map_cong) auto
  with d n show ?thesis
    by (simp add: detect_recurring_transactions_def mark_groups_map Let_def)
qed

subsection \<open>The pipeline does not look at the fields the loop writes\<close>

lemma insort_key_map:
  "insort_key f (F x) (map F xs) = map F (insort_key (\<lambda>y. f (F y)) x xs)"
  by (induction xs) simp_all

lemma sort_key_map: "sort_key f (map F xs) = map F (sort_key (\<lambda>y. f (F y)) xs)"
  by (induction xs) (simp_all add: insort_key_map)

lemma group_by_map:
  assumes "\<And>x. f (h x) = f x"
  shows "group_by f (map h xs) = map (\<lambda>p. (fst p, map h (snd p))) (group_by f xs)"
  by (simp add: group_by_def comp_def assms filter_map)

lemma recurring_pipeline_map:
  assumes "\<And>t. recurring_match now uid (h t) = recurring_match now uid t"
    and "\<And>t. recurring_key (h t) = recurring_key t"
  shows "recurring_pipeline now uid (map h ts)
           = map (\<lambda>p. (fst p, map h (snd p))) (recurring_pipeline now uid ts)"
proof -
  let ?F = "\<lambda>p :: (string option \<times> real \<times> int) \<times> transaction list. (fst p, map h (snd p))"
  have 1: "filter (recurring_match now uid) (map h ts) = map h (filter (recurring_match now uid) ts)"
    by (simp add: filter_map comp_def assms(1))
  have 2: "filter (\<lambda>g. 2 \<le> length (snd g)) (map ?F G) = map ?F (filter (\<lambda>g. 2 \<le> length (snd g)) G)" for G
    by (simp add: filter_map comp_def)
  show ?thesis
    unfolding recurring_pipeline_def 1 group_by_map [of recurring_key h, OF assms(2)] 2
    by (simp add: sort_key_map)
qed

lemma to_group_map:
  assumes "\<And>t. to_member (h t) = to_member t"
  shows "to_group (fst p, map h (snd p)) = to_group p"
  by (simp add: to_group_def comp_def assms)

lemma detect_groups_map:
  assumes "\<And>t. recurring_match now uid (h t) = recurring_match now uid t"
    and "\<And>t. recurring_key (h t) = recurring_key t"
    and "\<And>t. to_member (h t) = to_member t"
  shows "fst (detect_recurring_transactions now stamp uid (st\<lparr>transactions := map h (transactions st)\<rparr>))
           = fst (detect_recurring_transactions now stamp' uid st)"
  by (simp add: detect_recurring_transactions_def Let_def recurring_pipeline_map [OF assms(1,2)]
      comp_def to_group_map [OF assms(3)])

lemma members_of_map:
  assumes "\<And>t. recurring_match now uid (h t) = recurring_match now uid t"
    and "\<And>t. recurring_key (h t) = recurring_key t"
  shows "members_of now uid (st\<lparr>transactions := map h (transactions st)\<rparr>) k
           = map h (members_of now uid st k)"
  by (simp add: members_of_def filter_map comp_def assms)

lemma flag_if_invariant:
  "recurring_match now uid (if c then flag stamp t else t) = recurring_match now uid t"
  "recurring_key (if c then flag stamp t else t) = recurring_key t"
  "to_member (if c then flag stamp t else t) = to_member t"
  by (simp_all add: recurring_match_def recurring_key_def to_member_def)

subsection \<open>Recurrence detection\<close>

lemma fst_detect:
  "fst (detect_recurring_transactions now stamp uid st)
     = map to_group (recurring_pipeline now uid (transactions st))"
proof -
  have "\<forall>p \<in> set (recurring_pipeline now uid (transactions st)). 2 \<le> g_frequency (to_group p)"
    by (auto simp: in_recurring_pipeline to_group_def)
  then have "filter (\<lambda>g. 2 \<le> g_frequency g) (map to_group (recurring_pipeline now uid (transactions st)))
           = map to_group (recurring_pipeline now uid (transactions st))"
    by (simp add: filter_map comp_def)
  then show ?thesis
    by (simp add: detect_recurring_transactions_def Let_def)
qed

lemma group_key_to_group: "group_key (to_group p) = fst p"
  by (simp add: group_key_def to_group_def)

lemma detect_netflix:
  "fst (detect_recurring_transactions (mk_date 2025 6 10) (mk_date 2025 6 10) ''u1'' netflix_store)
     = [\<lparr>g_merchant = Some ''Netflix'', g_amount = 199, g_day_of_month = 5, g_frequency = 3,
         g_transactions =
           [\<lparr>m_id = Some 0, m_transaction_date = mk_date 2025 3 5, m_amount = 199\<rparr>,
            \<lparr>m_id = Some 1, m_transaction_date = mk_date 2025 4 5, m_amount = 199\<rparr>,
            \<lparr>m_id = Some 3, m_transaction_date = mk_date 2025 5 5, m_amount = 199\<rparr>]\<rparr>]"
  by (simp add: detect_recurring_transactions_def recurring_pipeline_def group_by_def
      netflix_store_def mk_tx_def recurring_match_def recurring_key_def minus_days_def
      timestamp_def mk_date_def days_from_civil_def to_group_def to_member_def)

lemma detect_netflix_flags:
  "map is_recurring (transactions (snd
      (detect_recurring_transactions (mk_date 2025 6 10) (mk_date 2025 6 10) ''u1'' netflix_store)))
     = [True, True, False, True]"
  by (simp add: detect_recurring_transactions_def recurring_pipeline_def group_by_def
      netflix_store_def mk_tx_def recurring_match_def recurring_key_def minus_days_def
      timestamp_def mk_date_def days_from_civil_def to_group_def to_member_def
      update_transaction_def set_document_def dict_assign_def matches_id_def Let_def)

lemma unique_ids_netflix: "unique_ids netflix_store"
  by (simp add: unique_ids_def netflix_store_def mk_tx_def)

text \<open>
  C6. For a store with distinct object ids, \<open>detect_recurring_transactions\<close> returns one
  group for every key (merchant, amount, day of month) that at least two transactions
  of the owner with a merchant in the trailing 180 days share, and no other group; a
  group lists exactly these transactions and their number; the groups come by
  descending count; afterwards every member has \<open>is_recurring\<close> set and every other
  transaction is as before. On the Netflix example the result is the one group of the
  three Netflix charges, without the fourth charge of the other merchant.
\<close>

theorem detect_recurring_groups:
  assumes "unique_ids st"
    and "detect_recurring_transactions now stamp uid st = (groups, st')"
  shows "(\<forall>g \<in> set groups.
            2 \<le> g_frequency g \<and> g_merchant g \<noteq> None
            \<and> g_frequency g = length (members_of now uid st (group_key g))
            \<and> g_transactions g = map to_member (members_of now uid st (group_key g)))
         \<and> (\<forall>k. 2 \<le> length (members_of now uid st k) \<longrightarrow> (\<exists>g \<in> set groups. group_key g = k))
         \<and> distinct (map group_key groups)
         \<and> sorted_wrt (\<lambda>a b. g_frequency b \<le> g_frequency a) groups
         \<and> length (transactions st') = length (transactions st)
         \<and> (\<forall>i < length (transactions st).
              if in_recurrence now uid st (transactions st ! i)
              then is_recurring (transactions st' ! i)
                   \<and> tx_id (transactions st' ! i) = tx_id (transactions st ! i)
              else transactions st' ! i = transactions st ! i)
         \<and> map group_key
              (fst (detect_recurring_transactions (mk_date 2025 6 10) (mk_date 2025 6 10) ''u1'' netflix_store))
             = [(Some ''Netflix'', 199, 5)]
         \<and> map (\<lambda>g. (g_frequency g, map m_id (g_transactions g)))
              (fst (detect_recurring_transactions (mk_date 2025 6 10) (mk_date 2025 6 10) ''u1'' netflix_store))
             = [(3, [Some 0, Some 1, Some 3])]
         \<and> map is_recurring (transactions (snd
              (detect_recurring_transactions (mk_date 2025 6 10) (mk_date 2025 6 10) ''u1'' netflix_store)))
             = [True, True, False, True]"
proof -
  let ?P = "recurring_pipeline now uid (transactions st)"
  from assms(2) have groups: "groups = map to_group ?P"
    using fst_detect [of now stamp uid st] by simp
  from assms have st': "st' = st\<lparr>transactions :=
        map (\<lambda>t. if in_recurrence now uid st t then flag stamp t else t) (transactions st)\<rparr>"
    using transactions_detect [of st now stamp uid] by simp
  have a: "\<forall>g \<in> set groups.
            2 \<le> g_frequency g \<and> g_merchant g \<noteq> None
            \<and> g_frequency g = length (members_of now uid st (group_key g))
            \<and> g_transactions g = map to_member (members_of now uid st (group_key g))"
  proof
    fix g assume "g \<in> set groups"
    then obtain p where p: "p \<in> set ?P" and g: "g = to_group p"
      unfolding groups by auto
    from p have sp: "snd p = members_of now uid st (fst p)" and l: "2 \<le> length (snd p)"
      by (auto simp: in_recurring_pipeline)
    from l obtain t where "t \<in> set (snd p)"
      by (cases "snd p") auto
    with sp have m: "recurring_match now uid t" and k: "recurring_key t = fst p"
      by (simp_all add: in_members_of)
    have "fst (recurring_key t) = merchant t"
      by (simp add: recurring_key_def)
    with m k have "fst (fst p) \<noteq> None"
      by (simp add: recurring_match_def)
    with sp l show "2 \<le> g_frequency g \<and> g_merchant g \<noteq> None
            \<and> g_frequency g = length (members_of now uid st (group_key g))
            \<and> g_transactions g = map to_member (members_of now uid st (group_key g))"
      unfolding g group_key_to_group by (simp add: to_group_def)
  qed
  have b: "\<forall>k. 2 \<le> length (members_of now uid st k) \<longrightarrow> (\<exists>g \<in> set groups. group_key g = k)"
  proof (intro allI impI)
    fix k assume "2 \<le> length (members_of now uid st k)"
    then have "(k, members_of now uid st k) \<in> set ?P"
      by (simp add: in_recurring_pipeline)
    then have "to_group (k, members_of now uid st k) \<in> set groups"
      unfolding groups by (simp only: set_map) (rule imageI)
    moreover have "group_key (to_group (k, members_of now uid st k)) = k"
      by (simp add: group_key_to_group)
    ultimately show "\<exists>g \<in> set groups. group_key g = k" by blast
  qed
  have c: "distinct (map group_key groups)"
    unfolding groups using distinct_recurring_pipeline [of now uid "transactions st"]
    by (simp add: comp_def group_key_to_group)
  have d: "sorted_wrt (\<lambda>a b. g_frequency b \<le> g_frequency a) groups"
    unfolding groups using sorted_recurring_pipeline [of now uid "transactions st"]
    by (simp add: sorted_wrt_map to_group_def)
  have e: "length (transactions st') = length (transactions st)"
    unfolding st' by simp
  have f: "\<forall>i < length (transactions st).
              if in_recurrence now uid st (transactions st ! i)
              then is_recurring (transactions st' ! i)
                   \<and> tx_id (transactions st' ! i) = tx_id (transactions st ! i)
              else transactions st' ! i = transactions st ! i"
    unfolding st' by simp
  have g: "map group_key
              (fst (detect_recurring_transactions (mk_date 2025 6 10) (mk_date 2025 6 10) ''u1'' netflix_store))
             = [(Some ''Netflix'', 199, 5)]"
    unfolding detect_netflix by (simp add: group_key_def)
  have h: "map (\<lambda>g. (g_frequency g, map m_id (g_transactions g)))
              (fst (detect_recurring_transactions (mk_date 2025 6 10) (mk_date 2025 6 10) ''u1'' netflix_store))
             = [(3, [Some 0, Some 1, Some 3])]"
    unfolding detect_netflix by simp
  from a b c d e f g h detect_netflix_flags show ?thesis by blast
qed

theorem detect_recurring_groups_witness:
  "unique_ids netflix_store
   \<and> fst (detect_recurring_transactions (mk_date 2025 6 10) (mk_date 2025 6 10) ''u1'' netflix_store)
       = [\<lparr>g_merchant = Some ''Netflix'', g_amount = 199, g_day_of_month = 5, g_frequency = 3,
           g_transactions =
             [\<lparr>m_id = Some 0, m_transaction_date = mk_date 2025 3 5, m_amount = 199\<rparr>,
              \<lparr>m_id = Some 1, m_transaction_date = mk_date 2025 4 5, m_amount = 199\<rparr>,
              \<lparr>m_id = Some 3, m_transaction_date = mk_date 2025 5 5, m_amount = 199\<rparr>]\<rparr>]
   \<and> length (members_of (mk_date 2025 6 10) ''u1'' netflix_store (Some ''Netflix'', 199, 5)) = 3
   \<and> map is_recurring (transactions (snd
        (detect_recurring_transactions (mk_date 2025 6 10) (mk_date 2025 6 10) ''u1'' netflix_store)))
       = [True, True, False, True]"
  using detect_recurring_groups [OF unique_ids_netflix surjective_pairing,
      of "mk_date 2025 6 10" "mk_date 2025 6 10" "''u1''"]
    unique_ids_netflix detect_netflix detect_netflix_flags
  by (simp add: group_key_def)

text \<open>
  C7. A second run at the same reference time returns the same groups as the first
  and leaves every \<open>is_recurring\<close> flag as the first run left it, whatever the clock
  readings \<open>s1\<close>, \<open>s2\<close> of the updates.
\<close>

theorem detect_recurring_idempotent:
  assumes "unique_ids st"
  shows "fst (detect_recurring_transactions now s2 uid (snd (detect_recurring_transactions now s1 uid st)))
           = fst (detect_recurring_transactions now s1 uid st)
         \<and> map is_recurring (transactions
              (snd (detect_recurring_transactions now s2 uid (snd (detect_recurring_transactions now s1 uid st)))))
           = map is_recurring (transactions (snd (detect_recurring_transactions now s1 uid st)))"
proof -
  let ?h = "\<lambda>t. if in_recurrence now uid st t then flag s1 t else t"
  let ?st1 = "st\<lparr>transactions := map ?h (transactions st)\<rparr>"
  have st1: "snd (detect_recurring_transactions now s1 uid st) = ?st1"
    using assms by (rule transactions_detect)
  have "(\<lambda>t. tx_id (?h t)) = tx_id"
    by (rule ext) simp
  with assms have u1: "unique_ids ?st1"
    by (simp add: unique_ids_def comp_def)
  have groups: "fst (detect_recurring_transactions now s2 uid ?st1)
                  = fst (detect_recurring_transactions now s1 uid st)"
    by (rule detect_groups_map) (rule flag_if_invariant)+
  have rec: "in_recurrence now uid ?st1 (?h t) = in_recurrence now uid st t" for t
  proof -
    have "members_of now uid ?st1 k = map ?h (members_of now uid st k)" for k
      by (rule members_of_map) (rule flag_if_invariant)+
    then show ?thesis
      by (simp add: in_recurrence_def flag_if_invariant)
  qed
  have "snd (detect_recurring_transactions now s2 uid ?st1)
          = ?st1\<lparr>transactions :=
               map (\<lambda>t. if in_recurrence now uid ?st1 t then flag s2 t else t) (transactions ?st1)\<rparr>"
    using u1 by (rule transactions_detect)
  then have "map is_recurring (transactions (snd (detect_recurring_transactions now s2 uid ?st1)))
          = map (\<lambda>t. is_recurring (if in_recurrence now uid ?st1 (?h t) then flag s2 (?h t) else ?h t))
              (transactions st)"
    by (simp add: comp_def)
  also have "\<dots> = map (\<lambda>t. is_recurring (?h t)) (transactions st)"
    by (rule map_cong [OF refl]) (simp only: rec, simp)
  also have "\<dots> = map is_recurring (transactions ?st1)"
    by (simp add: comp_def)
  finally show ?thesis
    unfolding st1 using groups by simp
qed

theorem detect_recurring_idempotent_witness:
  "unique_ids netflix_store
   \<and> fst (detect_recurring_transactions (mk_date 2025 6 10) (mk_date 2025 6 12) ''u1''
        (snd (detect_recurring_transactions (mk_date 2025 6 10) (mk_date 2025 6 10) ''u1'' netflix_store)))
       = [\<lparr>g_merchant = Some ''Netflix'', g_amount = 199, g_day_of_month = 5, g_frequency = 3,
           g_transactions =
             [\<lparr>m_id = Some 0, m_transaction_date = mk_date 2025 3 5, m_amount = 199\<rparr>,
              \<lparr>m_id = Some 1, m_transaction_date = mk_date 2025 4 5, m_amount = 199\<rparr>,
              \<lparr>m_id = Some 3, m_transaction_date = mk_date 2025 5 5, m_amount = 199\<rparr>]\<rparr>]
   \<and> map is_recurring (transactions
        (snd (detect_recurring_transactions (mk_date 2025 6 10) (mk_date 2025 6 12) ''u1''
           (snd (detect_recurring_transactions (mk_date 2025 6 10) (mk_date 2025 6 10) ''u1'' netflix_store)))))
       = [True, True, False, True]"
  using detect_recurring_idempotent [OF unique_ids_netflix,
      of "mk_date 2025 6 10" "mk_date 2025 6 12" "''u1''" "mk_date 2025 6 10"]
    unique_ids_netflix detect_netflix detect_netflix_flags
  by simp

subsection \<open>Classification and normalization\<close>

lemma process_sms_Raises: "process_sms_intelligently lib now Raises = None"
  by (simp add: process_sms_intelligently_def process_sms_body_def)

lemma process_sms_not_transaction:
  assumes "json_loads lib (clean_json_text text) = Some (JObj d)"
    and "\<not> truthy (dict_get d ''is_transaction'' (JBool False))"
  shows "process_sms_intelligently lib now (Text text) = None"
  using assms by (simp add: process_sms_intelligently_def process_sms_body_def)

text \<open>
  C2, as amended. A failing classifier call is caught inside the classification
  operation, which then returns \<open>None\<close>, the outcome it also returns for a message the
  classifier marks as no transaction; the ingestion step built on it returns \<open>None\<close>
  and leaves the store, and so the message's \<open>parsed\<close> flag, as it was.
\<close>

theorem classifier_failure_returns_None:
  "process_sms_body lib now Raises = Inl ServiceError
   \<and> process_sms_intelligently lib now Raises = None
   \<and> (json_loads lib (clean_json_text text) = Some (JObj d)
        \<and> \<not> truthy (dict_get d ''is_transaction'' (JBool False))
       \<longrightarrow> process_sms_intelligently lib now (Text text) = process_sms_intelligently lib now Raises)
   \<and> process_sms_for_transactions lib now Raises uid sms st = (None, st)"
  by (simp add: process_sms_Raises process_sms_not_transaction process_sms_body_def
      process_sms_for_transactions_def)

lemma clean_otp: "clean_json_text otp_response = otp_response"
  by (simp add: clean_json_text_def otp_response_def strip_def is_space_def startswith_def
      endswith_def Let_def)

lemma loads_otp:
  "json_loads stub_library otp_response =
     Some (JObj [(''is_transaction'', JBool False), (''confidence'', JNum 0.9),
                 (''reason'', JStr ''OTP message, no transaction details'')])"
  by (simp add: stub_library_def)

theorem classifier_failure_returns_None_witness:
  "json_loads stub_library (clean_json_text otp_response) =
     Some (JObj [(''is_transaction'', JBool False), (''confidence'', JNum 0.9),
                 (''reason'', JStr ''OTP message, no transaction details'')])
   \<and> \<not> truthy (dict_get [(''is_transaction'', JBool False), (''confidence'', JNum 0.9),
                 (''reason'', JStr ''OTP message, no transaction details'')] ''is_transaction'' (JBool False))
   \<and> process_sms_intelligently stub_library (mk_date 2025 6 10) (Text otp_response) = None
   \<and> process_sms_intelligently stub_library (mk_date 2025 6 10) Raises = None"
  using classifier_failure_returns_None [of stub_library "mk_date 2025 6 10" otp_response
      "[(''is_transaction'', JBool False), (''confidence'', JNum 0.9),
        (''reason'', JStr ''OTP message, no transaction details'')]"]
  by (simp add: clean_otp loads_otp dict_get_def process_sms_Raises)

text \<open>
  The claim as stated fails: the outcome for a failed classifier call is the outcome
  for a non-transactional message.
\<close>

theorem classifier_failure_not_distinct:
  "process_sms_intelligently stub_library (mk_date 2025 6 10) Raises
     = process_sms_intelligently stub_library (mk_date 2025 6 10) (Text otp_response)"
proof -
  have "otp_response \<noteq> []"
    by (simp add: otp_response_def)
  then have "process_sms_intelligently stub_library (mk_date 2025 6 10) (Text otp_response) = None"
    by (simp add: process_sms_intelligently_def process_sms_body_def clean_otp loads_otp dict_get_def)
  then show ?thesis
    by (simp add: process_sms_Raises)
qed


lemma extract_fields_amount:
  "extract_fields lib now d single = Inr (Some pd) \<Longrightarrow>
   py_float lib (dict_get d ''amount'' JNull) = Inr (d_amount pd)"
  by (auto simp: extract_fields_def split: sum.splits option.splits)

lemma extract_fields_modulo_date:
  "map_sum id (map_option (\<lambda>x. x\<lparr>d_transaction_date := c\<rparr>)) (extract_fields lib now1 d single)
     = map_sum id (map_option (\<lambda>x. x\<lparr>d_transaction_date := c\<rparr>)) (extract_fields lib now2 d single)"
  by (simp add: extract_fields_def split: sum.splits option.splits)

lemma parse_date_parses:
  "date_parses lib d \<Longrightarrow>
   parse_date_from_gemini lib now1 (dict_get d ''transaction_date'' (JStr []))
     = parse_date_from_gemini lib now2 (dict_get d ''transaction_date'' (JStr []))"
  by (auto simp: date_parses_def parse_date_from_gemini_def split: json.splits)

lemma parse_date_fallback:
  "\<not> date_parses lib d \<Longrightarrow>
   parse_date_from_gemini lib now (dict_get d ''transaction_date'' (JStr [])) = now"
  by (auto simp: date_parses_def parse_date_from_gemini_def split: json.splits)

lemma extract_fields_parses:
  "date_parses lib d \<Longrightarrow> extract_fields lib now1 d single = extract_fields lib now2 d single"
  by (simp add: extract_fields_def parse_date_parses [of lib d now1 now2]
      split: sum.splits option.splits)

lemma process_sms_modulo_date:
  "map_option (\<lambda>x. x\<lparr>d_transaction_date := c\<rparr>) (process_sms_intelligently lib now1 response)
     = map_option (\<lambda>x. x\<lparr>d_transaction_date := c\<rparr>) (process_sms_intelligently lib now2 response)"
proof (cases response)
  case Raises
  then show ?thesis by (simp add: process_sms_Raises)
next
  case (Text body)
  show ?thesis
  proof (cases "json_loads lib (clean_json_text body)")
    case None
    with Text show ?thesis
      by (simp add: process_sms_intelligently_def process_sms_body_def)
  next
    case (Some j)
    show ?thesis
    proof (cases j)
      case (JObj d)
      have "map_option (\<lambda>x. x\<lparr>d_transaction_date := c\<rparr>)
              (case extract_fields lib now1 d True of Inl e \<Rightarrow> None | Inr r \<Rightarrow> r)
          = map_option (\<lambda>x. x\<lparr>d_transaction_date := c\<rparr>)
              (case extract_fields lib now2 d True of Inl e \<Rightarrow> None | Inr r \<Rightarrow> r)"
        using extract_fields_modulo_date [of c lib now1 d True now2]
        by (auto split: sum.splits)
      with Text Some JObj show ?thesis
        by (simp add: process_sms_intelligently_def process_sms_body_def)
    qed (insert Text Some, simp_all add: process_sms_intelligently_def process_sms_body_def)
  qed
qed

text \<open>
  C3, as amended. Normalization reads the clock only to fill in a date that is missing
  or does not parse: two runs on the same classifier output agree in every field but
  \<open>transaction_date\<close>, which is then the clock reading, and they agree altogether when
  the date field parses.
\<close>

theorem normalization_deterministic_up_to_clock:
  "(json_loads lib (clean_json_text text) = Some (JObj d) \<and> date_parses lib d
      \<longrightarrow> process_sms_intelligently lib now1 (Text text)
            = process_sms_intelligently lib now2 (Text text))
   \<and> map_option (\<lambda>x. x\<lparr>d_transaction_date := c\<rparr>) (process_sms_intelligently lib now1 response)
       = map_option (\<lambda>x. x\<lparr>d_transaction_date := c\<rparr>) (process_sms_intelligently lib now2 response)
   \<and> (\<not> date_parses lib d
      \<longrightarrow> parse_date_from_gemini lib now1 (dict_get d ''transaction_date'' (JStr [])) = now1)"
proof -
  have "process_sms_intelligently lib now1 (Text text) = process_sms_intelligently lib now2 (Text text)"
    if "json_loads lib (clean_json_text text) = Some (JObj d)" "date_parses lib d"
    using that extract_fields_parses [of lib d now1 True now2]
    by (simp add: process_sms_intelligently_def process_sms_body_def)
  then show ?thesis
    using process_sms_modulo_date [of c lib now1 response now2] parse_date_fallback [of lib d now1]
    by blast
qed

lemma clean_amazon: "clean_json_text amazon_response = amazon_response"
  by (simp add: clean_json_text_def amazon_response_def strip_def is_space_def startswith_def
      endswith_def Let_def)

lemma clean_undated: "clean_json_text undated_response = undated_response"
  by (simp add: clean_json_text_def undated_response_def strip_def is_space_def startswith_def
      endswith_def Let_def)

lemma loads_amazon: "json_loads stub_library amazon_response = Some (JObj amazon_entry)"
  by (simp add: stub_library_def amazon_response_def otp_response_def)

lemma loads_undated: "json_loads stub_library undated_response = Some (JObj undated_entry)"
  by (simp add: stub_library_def amazon_response_def otp_response_def undated_response_def)

lemma amazon_date_parses: "date_parses stub_library amazon_entry"
  by (simp add: date_parses_def amazon_entry_def dict_get_def stub_library_def replace_Z_def)

lemma undated_not_parses: "\<not> date_parses stub_library undated_entry"
  by (simp add: date_parses_def undated_entry_def dict_get_def stub_library_def replace_Z_def)

theorem normalization_deterministic_up_to_clock_witness:
  "json_loads stub_library (clean_json_text amazon_response) = Some (JObj amazon_entry)
   \<and> date_parses stub_library amazon_entry
   \<and> process_sms_intelligently stub_library (mk_date 2025 6 10) (Text amazon_response)
       = process_sms_intelligently stub_library (mk_date 2025 6 11) (Text amazon_response)
   \<and> \<not> date_parses stub_library undated_entry
   \<and> parse_date_from_gemini stub_library (mk_date 2025 6 10)
        (dict_get undated_entry ''transaction_date'' (JStr [])) = mk_date 2025 6 10"
  using normalization_deterministic_up_to_clock [of stub_library amazon_response amazon_entry
      "mk_date 2025 6 10" "mk_date 2025 6 11"]
    normalization_deterministic_up_to_clock [of stub_library _ undated_entry "mk_date 2025 6 10"]
  by (simp add: clean_amazon loads_amazon amazon_date_parses undated_not_parses)

text \<open>
  The claim as stated fails: the same classifier output without a date is normalized
  to different results at different times.
\<close>

theorem normalization_reads_clock:
  "process_sms_intelligently stub_library (mk_date 2025 6 10) (Text undated_response)
     \<noteq> process_sms_intelligently stub_library (mk_date 2025 6 11) (Text undated_response)"
proof -
  have ne: "undated_response \<noteq> []"
    by (simp add: undated_response_def)
  have am: "map_of undated_entry ''amount'' \<noteq> None"
    and tr: "truthy (dict_get undated_entry ''is_transaction'' (JBool False))"
    by (simp_all add: undated_entry_def dict_get_def)
  have r: "map_option d_transaction_date
             (process_sms_intelligently stub_library now (Text undated_response)) = Some now" for now
  proof -
    have "\<exists>pd. extract_fields stub_library now undated_entry True = Inr (Some pd)
                \<and> d_transaction_date pd = now"
      by (simp add: undated_entry_def dict_get_def extract_fields_def convert_transaction_type_def
          convert_transaction_type_str_def convert_payment_method_def convert_payment_method_str_def
          lower_def lower_char_def py_float_def parse_date_from_gemini_def stub_library_def
          replace_Z_def)
    then obtain pd where "extract_fields stub_library now undated_entry True = Inr (Some pd)"
      and "d_transaction_date pd = now"
      by blast
    with ne am tr show ?thesis
      by (simp add: process_sms_intelligently_def process_sms_body_def clean_undated loads_undated)
  qed
  from r [of "mk_date 2025 6 10"] r [of "mk_date 2025 6 11"] show ?thesis
    by (auto simp: mk_date_def)
qed

subsection \<open>Amount validation\<close>

lemma construct_transaction_rejects:
  "d_amount data \<le> 0 \<Longrightarrow> construct_transaction now uid data = Inl ValidationError"
  by (simp add: construct_transaction_def validate_amount_def Let_def)

lemma create_transaction_rejects:
  "d_amount data \<le> 0 \<Longrightarrow> create_transaction now uid data st = (None, st)"
  by (simp add: create_transaction_def construct_transaction_rejects)

lemma process_sms_missing_amount:
  assumes "json_loads lib (clean_json_text body) = Some (JObj d)"
    and "map_of d ''amount'' = None"
  shows "process_sms_intelligently lib now (Text body) = None"
  using assms by (simp add: process_sms_intelligently_def process_sms_body_def)

lemma process_sms_Some_amount:
  assumes "process_sms_intelligently lib now (Text body) = Some pd"
    and "json_loads lib (clean_json_text body) = Some (JObj d)"
  shows "py_float lib (dict_get d ''amount'' JNull) = Inr (d_amount pd)"
proof -
  from assms have "extract_fields lib now d True = Inr (Some pd)"
    by (auto simp: process_sms_intelligently_def process_sms_body_def
        split: if_splits sum.splits)
  then show ?thesis by (rule extract_fields_amount)
qed

text \<open>
  C4. A classifier output without the \<open>amount\<close> key is rejected by the parser; a
  candidate whose amount is not positive fails the validator of the transaction model
  and nothing is stored; so the ingestion of a message whose classifier output has no
  amount, or an amount that converts to a number not above 0, creates no transaction
  and leaves the store unchanged, whatever the other fields are.
\<close>

theorem nonpositive_or_missing_amount_rejected:
  "(json_loads lib (clean_json_text body) = Some (JObj d) \<and> map_of d ''amount'' = None
      \<longrightarrow> process_sms_intelligently lib now (Text body) = None)
   \<and> (d_amount data \<le> 0
      \<longrightarrow> construct_transaction now uid data = Inl ValidationError
          \<and> create_transaction now uid data st = (None, st))
   \<and> (json_loads lib (clean_json_text body) = Some (JObj d)
       \<and> (map_of d ''amount'' = None
           \<or> (\<exists>a. py_float lib (dict_get d ''amount'' JNull) = Inr a \<and> a \<le> 0))
      \<longrightarrow> process_sms_for_transactions lib now (Text body) uid sms st = (None, st))"
proof -
  have "process_sms_for_transactions lib now (Text body) uid sms st = (None, st)"
    if l: "json_loads lib (clean_json_text body) = Some (JObj d)"
      and a: "map_of d ''amount'' = None
              \<or> (\<exists>a. py_float lib (dict_get d ''amount'' JNull) = Inr a \<and> a \<le> 0)"
  proof (cases "process_sms_intelligently lib now (Text body)")
    case None
    then show ?thesis by (simp add: process_sms_for_transactions_def)
  next
    case (Some pd)
    from Some l have f: "py_float lib (dict_get d ''amount'' JNull) = Inr (d_amount pd)"
      by (rule process_sms_Some_amount)
    from Some l have "map_of d ''amount'' \<noteq> None"
      using process_sms_missing_amount [of lib body d now] by auto
    with a f have "d_amount pd \<le> 0" by auto
    then have "d_amount (pd\<lparr>d_sms_message_id := sms_id sms\<rparr>) \<le> 0" by simp
    then have "create_transaction now uid (pd\<lparr>d_sms_message_id := sms_id sms\<rparr>) st = (None, st)"
      by (rule create_transaction_rejects)
    with Some show ?thesis by (simp add: process_sms_for_transactions_def)
  qed
  then show ?thesis
    using process_sms_missing_amount [of lib body d now]
      construct_transaction_rejects [of data now uid] create_transaction_rejects [of data now uid st]
    by blast
qed

lemma clean_no_amount: "clean_json_text no_amount_response = no_amount_response"
  by (simp add: clean_json_text_def no_amount_response_def strip_def is_space_def startswith_def
      endswith_def Let_def)

lemma clean_negative: "clean_json_text negative_response = negative_response"
  by (simp add: clean_json_text_def negative_response_def strip_def is_space_def startswith_def
      endswith_def Let_def)

lemma loads_no_amount: "json_loads stub_library no_amount_response = Some (JObj no_amount_entry)"
  by (simp add: stub_library_def amazon_response_def otp_response_def undated_response_def
      no_amount_response_def)

lemma loads_negative: "json_loads stub_library negative_response = Some (JObj negative_entry)"
  by (simp add: stub_library_def amazon_response_def otp_response_def undated_response_def
      no_amount_response_def negative_response_def)

theorem nonpositive_or_missing_amount_rejected_witness:
  "json_loads stub_library (clean_json_text no_amount_response) = Some (JObj no_amount_entry)
   \<and> map_of no_amount_entry ''amount'' = None
   \<and> process_sms_intelligently stub_library (mk_date 2025 6 10) (Text no_amount_response) = None
   \<and> d_amount negative_data \<le> 0
   \<and> create_transaction (mk_date 2025 6 10) ''u1'' negative_data sample_sms_store
       = (None, sample_sms_store)
   \<and> process_sms_for_transactions stub_library (mk_date 2025 6 10) (Text no_amount_response)
        ''u1'' sample_sms sample_sms_store = (None, sample_sms_store)"
  using nonpositive_or_missing_amount_rejected [of stub_library no_amount_response no_amount_entry
      "mk_date 2025 6 10" negative_data "''u1''" sample_sms_store sample_sms]
  by (simp add: clean_no_amount loads_no_amount no_amount_entry_def negative_data_def)

lemma negative_rejected_example:
  "json_loads stub_library (clean_json_text negative_response) = Some (JObj negative_entry)
   \<and> py_float stub_library (dict_get negative_entry ''amount'' JNull) = Inr (- 5)
   \<and> process_sms_intelligently stub_library (mk_date 2025 6 10) (Text negative_response)
       = Some negative_data
   \<and> process_sms_for_transactions stub_library (mk_date 2025 6 10) (Text negative_response)
        ''u1'' sample_sms sample_sms_store = (None, sample_sms_store)"
proof -
  have ne: "negative_response \<noteq> []"
    by (simp add: negative_response_def)
  have e: "extract_fields stub_library (mk_date 2025 6 10) negative_entry True = Inr (Some negative_data)"
    by (simp add: negative_entry_def negative_data_def dict_get_def extract_fields_def
        convert_transaction_type_def convert_transaction_type_str_def convert_payment_method_def
        convert_payment_method_str_def lower_def lower_char_def py_float_def
        parse_date_from_gemini_def stub_library_def replace_Z_def)
  have am: "map_of negative_entry ''amount'' \<noteq> None"
    and tr: "truthy (dict_get negative_entry ''is_transaction'' (JBool False))"
    and fl: "py_float stub_library (dict_get negative_entry ''amount'' JNull) = Inr (- 5)"
    by (simp_all add: negative_entry_def dict_get_def py_float_def)
  from ne e am tr have p: "process_sms_intelligently stub_library (mk_date 2025 6 10) (Text negative_response)
       = Some negative_data"
    by (simp add: process_sms_intelligently_def process_sms_body_def clean_negative loads_negative)
  have "create_transaction (mk_date 2025 6 10) ''u1'' (negative_data\<lparr>d_sms_message_id := sms_id sample_sms\<rparr>)
          sample_sms_store = (None, sample_sms_store)"
    by (rule create_transaction_rejects) (simp add: negative_data_def)
  with p fl show ?thesis
    by (simp add: process_sms_for_transactions_def clean_negative loads_negative)
qed

subsection \<open>Bulk import\<close>

lemma create_all_lengths:
  "length (fst (create_all now uid txs st)) + length (fst (snd (create_all now uid txs st)))
     = length txs"
  by (induction txs arbitrary: st) (simp_all add: Let_def split: option.splits)

lemma valid_transactions_length:
  "valid_transactions lib now xs = Inr txs \<Longrightarrow> length txs \<le> length (filter has_amount xs)"
proof (induction xs arbitrary: txs)
  case Nil
  then show ?case by simp
next
  case (Cons x xs)
  show ?case
  proof (cases "\<not> truthy x \<or> amount_not_in x = Inr True")
    case True
    with Cons.prems have "valid_transactions lib now xs = Inr txs"
      by (auto split: if_splits)
    then have "length txs \<le> length (filter has_amount xs)"
      by (rule Cons.IH)
    then show ?thesis by simp
  next
    case False
    with Cons.prems obtain d where x: "x = JObj d" and a: "map_of d ''amount'' \<noteq> None"
      by (cases x) (auto simp: amount_not_in_def split: if_splits sum.splits bool.splits)
    then have h: "has_amount x"
      by (simp add: has_amount_def)
    from Cons.prems False x
    consider "valid_transactions lib now xs = Inr txs"
      | tx txs' where "txs = tx # txs'" "valid_transactions lib now xs = Inr txs'"
      by (auto split: if_splits sum.splits bool.splits option.splits)
    then show ?thesis
    proof cases
      case 1
      then have "length txs \<le> length (filter has_amount xs)"
        by (rule Cons.IH)
      then show ?thesis by simp
    next
      case 2
      from 2(2) have "length txs' \<le> length (filter has_amount xs)"
        by (rule Cons.IH)
      with 2(1) h show ?thesis by simp
    qed
  qed
qed

lemma parse_backup_file_length:
  assumes "json_loads lib (clean_json_text body) = Some (JArr entries)"
  shows "length (parse_backup_file_with_gemini lib now (Text body))
           \<le> length (filter has_amount entries)"
proof (cases "valid_transactions lib now entries")
  case (Inl e)
  with assms show ?thesis
    by (simp add: parse_backup_file_with_gemini_def parse_backup_file_body_def)
next
  case (Inr txs)
  then have "length txs \<le> length (filter has_amount entries)"
    by (rule valid_transactions_length)
  with assms Inr show ?thesis
    by (simp add: parse_backup_file_with_gemini_def parse_backup_file_body_def)
qed

lemma process_backup_file_found:
  "transactions_found (fst (process_backup_file lib now gemini uid backup_data st))
     = length (parse_backup_file_with_gemini lib now
         (gemini (case b64decode_utf8 lib (file_content backup_data) of
                    None \<Rightarrow> file_content backup_data | Some s \<Rightarrow> s)
                 (file_type backup_data)))"
  by (simp add: process_backup_file_def Let_def)

lemma process_backup_file_counts:
  "transactions_created (fst (process_backup_file lib now gemini uid backup_data st))
     + length (errors (fst (process_backup_file lib now gemini uid backup_data st)))
     = transactions_found (fst (process_backup_file lib now gemini uid backup_data st))"
  by (simp add: process_backup_file_def Let_def create_all_lengths)

lemma clean_statement: "clean_json_text statement_response = statement_response"
  by (simp add: clean_json_text_def statement_response_def strip_def is_space_def startswith_def
      endswith_def Let_def)

lemma loads_statement: "json_loads stub_library statement_response = Some (JArr statement_entries)"
  by (simp add: stub_library_def amazon_response_def otp_response_def undated_response_def
      no_amount_response_def negative_response_def statement_response_def)

lemma statement_entries_amounts:
  "length statement_entries = 3 \<and> length (filter has_amount statement_entries) = 2
   \<and> length (filter (\<lambda>e. \<not> has_amount e) statement_entries) = 1"
  by (simp add: statement_entries_def has_amount_def)

lemma statement_result_eval:
  "transactions_found statement_result = 2 \<and> transactions_created statement_result = 2
   \<and> errors statement_result = []"
proof -
  have ne: "statement_response \<noteq> []"
    by (simp add: statement_response_def)
  have v: "valid_transactions stub_library (mk_date 2025 6 10) statement_entries =
        Inr [\<lparr>d_sms_message_id = None, d_transaction_type = SPENT, d_amount = 500,
               d_currency = JStr ''INR'', d_merchant = JStr ''Amazon'', d_category = JNull,
               d_transaction_date = \<lparr>dt_year = 2025, dt_month = 1, dt_day = 15, dt_micros = 43200000000\<rparr>,
               d_reference_number = JNull, d_account_number = JNull, d_card_number = JNull,
               d_payment_method = None, d_remarks = JNull, d_tags = [], d_is_failed = JBool False,
               d_detection = None\<rparr>,
             \<lparr>d_sms_message_id = None, d_transaction_type = RECEIVED, d_amount = 1000,
               d_currency = JStr ''INR'', d_merchant = JStr ''Salary'', d_category = JNull,
               d_transaction_date = \<lparr>dt_year = 2025, dt_month = 1, dt_day = 15, dt_micros = 43200000000\<rparr>,
               d_reference_number = JNull, d_account_number = JNull, d_card_number = JNull,
               d_payment_method = None, d_remarks = JNull, d_tags = [], d_is_failed = JBool False,
               d_detection = None\<rparr>]"
    by (simp add: statement_entries_def amount_not_in_def dict_get_def extract_fields_def
        convert_transaction_type_def convert_transaction_type_str_def convert_payment_method_def
        convert_payment_method_str_def lower_def lower_char_def py_float_def
        parse_date_from_gemini_def stub_library_def replace_Z_def)
  from ne have p: "parse_backup_file_with_gemini stub_library (mk_date 2025 6 10) (Text statement_response)
        = projr (valid_transactions stub_library (mk_date 2025 6 10) statement_entries)"
    unfolding v
    by (simp add: parse_backup_file_with_gemini_def parse_backup_file_body_def clean_statement
        loads_statement v)
  show ?thesis
    unfolding statement_result_def process_backup_file_def p v
    by (simp add: Let_def create_transaction_def construct_transaction_def pyd_str_def
        pyd_opt_str_def pyd_bool_def validate_amount_def validate_reference_number_def
        insert_transaction_def empty_store_def)
qed

lemma construct_transaction_accepted:
  "accepted data \<Longrightarrow> \<not> isl (construct_transaction now uid data)"
  by (simp add: construct_transaction_def accepted_def Let_def)

lemma create_transaction_accepted:
  "accepted data \<Longrightarrow> fst (create_transaction now uid data st) \<noteq> None"
  using construct_transaction_accepted [of data now uid]
  by (cases "construct_transaction now uid data") (simp_all add: create_transaction_def Let_def)

lemma create_all_accepted:
  "list_all accepted txs \<Longrightarrow>
   length (fst (create_all now uid txs st)) = length txs \<and> fst (snd (create_all now uid txs st)) = []"
proof (induction txs arbitrary: st)
  case Nil
  then show ?case by simp
next
  case (Cons tx txs)
  then have "fst (create_transaction now uid tx st) \<noteq> None"
    by (simp add: create_transaction_accepted)
  then obtain t where "fst (create_transaction now uid tx st) = Some t"
    by auto
  moreover from Cons have "length (fst (create_all now uid txs (snd (create_transaction now uid tx st)))) = length txs
      \<and> fst (snd (create_all now uid txs (snd (create_transaction now uid tx st)))) = []"
    by simp
  ultimately show ?case by (simp add: Let_def)
qed

lemma extract_fields_well_formed:
  assumes "well_formed_entry lib d"
  shows "\<exists>tx. extract_fields lib now d False = Inr (Some tx) \<and> accepted tx"
proof -
  from assms obtain s ttype where ty: "dict_get d ''transaction_type'' (JStr []) = JStr s"
    "convert_transaction_type_str s = Some ttype"
    by (auto simp: well_formed_entry_def split: json.splits)
  from assms obtain m where pm: "dict_get d ''payment_method'' (JStr []) = JStr m"
    by (auto simp: well_formed_entry_def is_str_def split: json.splits)
  from assms obtain a where am: "py_float lib (dict_get d ''amount'' JNull) = Inr a" "0 < a"
    by (auto simp: well_formed_entry_def split: sum.splits)
  from ty pm am have e: "extract_fields lib now d False =
      Inr (Some \<lparr>d_sms_message_id = None, d_transaction_type = ttype, d_amount = a,
                 d_currency = dict_get d ''currency'' (JStr ''INR''),
                 d_merchant = dict_get d ''merchant'' JNull, d_category = JNull,
                 d_transaction_date =
                   parse_date_from_gemini lib now (dict_get d ''transaction_date'' (JStr [])),
                 d_reference_number = dict_get d ''reference_number'' JNull,
                 d_account_number = dict_get d ''account_number'' JNull,
                 d_card_number = dict_get d ''card_number'' JNull,
                 d_payment_method = convert_payment_method_str m,
                 d_remarks = dict_get d ''remarks'' JNull, d_tags = [],
                 d_is_failed = dict_get d ''is_failed'' (JBool False), d_detection = None\<rparr>)"
    by (simp add: extract_fields_def convert_transaction_type_def convert_payment_method_def)
  have os: "\<not> isl (pyd_opt_str v)" if "is_opt_str v" for v
    using that by (auto simp: is_opt_str_def pyd_opt_str_def split: json.splits)
  have ss: "\<not> isl (pyd_str v)" if "is_str v" for v
    using that by (auto simp: is_str_def pyd_str_def split: json.splits)
  from assms have r: "\<not> isl (pyd_opt_str (dict_get d ''reference_number'' JNull))
      \<and> validate_reference_number (projr (pyd_opt_str (dict_get d ''reference_number'' JNull)))"
    by (auto simp: well_formed_entry_def pyd_opt_str_def validate_reference_number_def
        split: json.splits)
  have c: "\<not> isl (pyd_opt_str JNull)"
    by (simp add: pyd_opt_str_def)
  from assms am(2) r c show ?thesis
    unfolding e
    by (simp add: accepted_def well_formed_entry_def os ss validate_amount_def)
qed

lemma valid_transactions_well_formed:
  assumes "list_all (\<lambda>e. is_object e \<and> (well_formed lib e \<or> \<not> has_amount e)) entries"
  shows "\<exists>txs. valid_transactions lib now entries = Inr txs
               \<and> length txs = length (filter has_amount entries) \<and> list_all accepted txs"
  using assms
proof (induction entries)
  case Nil
  then show ?case by simp
next
  case (Cons e entries)
  then obtain txs where txs: "valid_transactions lib now entries = Inr txs"
    "length txs = length (filter has_amount entries)" "list_all accepted txs"
    by auto
  from Cons.prems obtain d where e: "e = JObj d"
    by (auto simp: is_object_def split: json.splits)
  show ?case
  proof (cases "has_amount e")
    case False
    with e have "\<not> truthy e \<or> amount_not_in e = Inr True"
      by (simp add: has_amount_def amount_not_in_def)
    with txs False show ?thesis by auto
  next
    case True
    with e have k: "map_of d ''amount'' \<noteq> None"
      by (simp add: has_amount_def)
    then have tr: "truthy e" and an: "amount_not_in e = Inr False"
      using e by (auto simp: amount_not_in_def)
    from Cons.prems True e have "well_formed_entry lib d"
      by (simp add: well_formed_def)
    then obtain tx where "extract_fields lib now d False = Inr (Some tx)" "accepted tx"
      using extract_fields_well_formed by blast
    with txs tr an e True show ?thesis by simp
  qed
qed

lemma process_backup_file_well_formed:
  assumes g: "gemini (case b64decode_utf8 lib (file_content backup_data) of
                 None \<Rightarrow> file_content backup_data | Some s \<Rightarrow> s)
              (file_type backup_data) = Text body"
    and ne: "body \<noteq> []"
    and l: "json_loads lib (clean_json_text body) = Some (JArr entries)"
    and w: "list_all (\<lambda>e. is_object e \<and> (well_formed lib e \<or> \<not> has_amount e)) entries"
  shows "transactions_found (fst (process_backup_file lib now gemini uid backup_data st))
           = length (filter has_amount entries)
         \<and> transactions_created (fst (process_backup_file lib now gemini uid backup_data st))
           = length (filter has_amount entries)
         \<and> errors (fst (process_backup_file lib now gemini uid backup_data st)) = []"
proof -
  from valid_transactions_well_formed [OF w, of now]
  obtain txs where txs: "valid_transactions lib now entries = Inr txs"
    "length txs = length (filter has_amount entries)" "list_all accepted txs"
    by blast
  from g ne l txs(1) have p: "parse_backup_file_with_gemini lib now
      (gemini (case b64decode_utf8 lib (file_content backup_data) of
                 None \<Rightarrow> file_content backup_data | Some s \<Rightarrow> s)
              (file_type backup_data)) = txs"
    by (simp add: parse_backup_file_with_gemini_def parse_backup_file_body_def)
  from txs(3) have c: "length (fst (create_all now uid txs st)) = length txs"
    "fst (snd (create_all now uid txs st)) = []"
    by (simp_all add: create_all_accepted)
  show ?thesis
    using txs(2) c by (cases "txs = []") (simp_all add: process_backup_file_def Let_def p)
qed

lemma statement_entries_well_formed:
  "list_all (\<lambda>e. is_object e \<and> (well_formed stub_library e \<or> \<not> has_amount e)) statement_entries"
  by (simp add: statement_entries_def is_object_def well_formed_def well_formed_entry_def
      has_amount_def dict_get_def convert_transaction_type_str_def lower_def lower_char_def
      py_float_def is_str_def is_opt_str_def pyd_bool_def stub_library_def)

lemma statement_response_nonempty: "statement_response \<noteq> []"
  by (simp add: statement_response_def)

text \<open>
  C1, as amended. The batch parser keeps only entries that have an amount, so the count
  of found transactions is at most the number of such entries, and every kept entry is
  either created or recorded in \<open>errors\<close>. When every entry of the batch is a dictionary
  that either lacks the amount or is well-formed (a transaction type of the vocabulary,
  a string or no payment method, an amount that converts to a positive number, fields of
  the types the Transaction model takes), exactly the entries with an amount are found,
  all of them are created and \<open>errors\<close> is empty; so three entries of which exactly one
  lacks the amount give found = 2, created = 2 and no error, as does the statement of the
  example.
\<close>

theorem backup_entries_without_amount_dropped:
  "transactions_created (fst (process_backup_file lib now gemini uid backup_data st))
     + length (errors (fst (process_backup_file lib now gemini uid backup_data st)))
     = transactions_found (fst (process_backup_file lib now gemini uid backup_data st))
   \<and> (gemini (case b64decode_utf8 lib (file_content backup_data) of
                 None \<Rightarrow> file_content backup_data | Some s \<Rightarrow> s)
              (file_type backup_data) = Text body
       \<and> json_loads lib (clean_json_text body) = Some (JArr entries)
       \<longrightarrow> transactions_found (fst (process_backup_file lib now gemini uid backup_data st))
             \<le> length (filter has_amount entries))
   \<and> (gemini (case b64decode_utf8 lib (file_content backup_data) of
                 None \<Rightarrow> file_content backup_data | Some s \<Rightarrow> s)
              (file_type backup_data) = Text body
       \<and> body \<noteq> []
       \<and> json_loads lib (clean_json_text body) = Some (JArr entries)
       \<and> list_all (\<lambda>e. is_object e \<and> (well_formed lib e \<or> \<not> has_amount e)) entries
       \<longrightarrow> transactions_found (fst (process_backup_file lib now gemini uid backup_data st))
             = length (filter has_amount entries)
           \<and> transactions_created (fst (process_backup_file lib now gemini uid backup_data st))
             = length (filter has_amount entries)
           \<and> errors (fst (process_backup_file lib now gemini uid backup_data st)) = []
           \<and> (length entries = 3 \<and> length (filter (\<lambda>e. \<not> has_amount e) entries) = 1
                \<longrightarrow> transactions_found (fst (process_backup_file lib now gemini uid backup_data st)) = 2
                    \<and> transactions_created (fst (process_backup_file lib now gemini uid backup_data st)) = 2))
   \<and> length statement_entries = 3
   \<and> length (filter has_amount statement_entries) = 2
   \<and> transactions_found statement_result = 2
   \<and> transactions_created statement_result = 2
   \<and> errors statement_result = []"
proof -
  have a: "transactions_created (fst (process_backup_file lib now gemini uid backup_data st))
     + length (errors (fst (process_backup_file lib now gemini uid backup_data st)))
     = transactions_found (fst (process_backup_file lib now gemini uid backup_data st))"
    by (rule process_backup_file_counts)
  have b: "transactions_found (fst (process_backup_file lib now gemini uid backup_data st))
             \<le> length (filter has_amount entries)"
    if "gemini (case b64decode_utf8 lib (file_content backup_data) of
                 None \<Rightarrow> file_content backup_data | Some s \<Rightarrow> s)
              (file_type backup_data) = Text body"
      and "json_loads lib (clean_json_text body) = Some (JArr entries)"
    using that parse_backup_file_length [of lib body entries now]
    by (simp add: process_backup_file_found)
  have c: "transactions_found (fst (process_backup_file lib now gemini uid backup_data st))
             = length (filter has_amount entries)
           \<and> transactions_created (fst (process_backup_file lib now gemini uid backup_data st))
             = length (filter has_amount entries)
           \<and> errors (fst (process_backup_file lib now gemini uid backup_data st)) = []"
    if "gemini (case b64decode_utf8 lib (file_content backup_data) of
                 None \<Rightarrow> file_content backup_data | Some s \<Rightarrow> s)
              (file_type backup_data) = Text body"
      and "body \<noteq> []"
      and "json_loads lib (clean_json_text body) = Some (JArr entries)"
      and "list_all (\<lambda>e. is_object e \<and> (well_formed lib e \<or> \<not> has_amount e)) entries"
    using that by (rule process_backup_file_well_formed)
  have d: "length (filter has_amount entries) = 2"
    if "length entries = 3" and "length (filter (\<lambda>e. \<not> has_amount e) entries) = 1"
    using that sum_length_filter_compl [of has_amount entries] by simp
  from a b c d statement_entries_amounts statement_result_eval show ?thesis
    by simp
qed

theorem backup_entries_without_amount_dropped_witness:
  "json_loads stub_library (clean_json_text statement_response) = Some (JArr statement_entries)
   \<and> statement_response \<noteq> []
   \<and> list_all (\<lambda>e. is_object e \<and> (well_formed stub_library e \<or> \<not> has_amount e)) statement_entries
   \<and> length statement_entries = 3
   \<and> length (filter (\<lambda>e. \<not> has_amount e) statement_entries) = 1
   \<and> transactions_found (fst (process_backup_file stub_library (mk_date 2025 6 10)
         (\<lambda>content ftype. Text statement_response) ''u1'' statement_upload empty_store)) = 2
   \<and> transactions_created (fst (process_backup_file stub_library (mk_date 2025 6 10)
         (\<lambda>content ftype. Text statement_response) ''u1'' statement_upload empty_store)) = 2
   \<and> errors (fst (process_backup_file stub_library (mk_date 2025 6 10)
         (\<lambda>content ftype. Text statement_response) ''u1'' statement_upload empty_store)) = []"
  using backup_entries_without_amount_dropped [of stub_library "mk_date 2025 6 10"
      "\<lambda>content ftype. Text statement_response" "''u1''" statement_upload empty_store
      statement_response statement_entries]
    statement_entries_well_formed statement_response_nonempty statement_entries_amounts
  by (simp add: clean_statement loads_statement)

text \<open>
  The claim as stated fails on the statement whose second of three entries lacks the
  amount: two transactions are found, not three, and no error is recorded.
\<close>

theorem backup_missing_amount_not_counted:
  "length statement_entries = 3
   \<and> length (filter (\<lambda>e. \<not> has_amount e) statement_entries) = 1
   \<and> \<not> (transactions_found statement_result = 3
        \<and> transactions_created statement_result = 2
        \<and> length (errors statement_result) = 1)"
  using statement_entries_amounts statement_result_eval by simp

subsection \<open>At most one transaction per message\<close>

























subsection \<open>Object ids stay distinct\<close>

text \<open>
  The hypothesis of the recurrence theorems is an invariant of the store: it holds of the
  empty store and every operation that writes transactions keeps it.
\<close>

lemma set_field_tx_id: "tx_id (set_field a t) = tx_id t"
  by (cases a) simp_all

lemma clear_field_tx_id: "tx_id (clear_field n t) = tx_id t"
  by (cases n) simp_all

lemma dollar_set_tx_id: "tx_id (dollar_set items t) = tx_id t"
  by (induction items t rule: dollar_set.induct)
    (simp_all add: set_field_tx_id clear_field_tx_id)

lemma update_one_tx_id:
  assumes "\<And>t. tx_id (g t) = tx_id t"
  shows "map tx_id (snd (update_one p g ts)) = map tx_id ts"
  by (induction ts) (simp_all add: assms)

lemma update_transaction_tx_ids:
  "map tx_id (transactions (snd (update_transaction now uid tid update_data st)))
     = map tx_id (transactions st)
   \<and> next_oid (snd (update_transaction now uid tid update_data st)) = next_oid st"
  by (simp add: update_transaction_def Let_def update_one_tx_id dollar_set_tx_id)

lemma ids_allocated_iff:
  "ids_allocated st \<longleftrightarrow>
     distinct (map tx_id (transactions st))
     \<and> (\<forall>r \<in> set (map tx_id (transactions st)). \<exists>i < next_oid st. r = Some i)"
  by (auto simp: ids_allocated_def unique_ids_def list_all_iff split: option.splits)

lemma ids_allocated_empty: "ids_allocated empty_store"
  by (simp add: ids_allocated_iff empty_store_def)

lemma update_transaction_ids_allocated:
  "ids_allocated st \<Longrightarrow> ids_allocated (snd (update_transaction now uid tid update_data st))"
  unfolding ids_allocated_iff by (simp only: update_transaction_tx_ids) simp

lemma insert_transaction_ids_allocated:
  "ids_allocated st \<Longrightarrow> ids_allocated (snd (insert_transaction t st))"
  unfolding ids_allocated_iff by (fastforce simp: insert_transaction_def intro: less_SucI)

lemma create_transaction_ids_allocated:
  "ids_allocated st \<Longrightarrow> ids_allocated (snd (create_transaction now uid data st))"
  by (auto simp: create_transaction_def Let_def auto_categorize_transaction_def
      insert_transaction_ids_allocated update_transaction_ids_allocated
      split: sum.splits option.splits prod.splits)

lemma detect_ids_allocated:
  assumes "ids_allocated st"
  shows "ids_allocated (snd (detect_recurring_transactions now stamp uid st))"
proof -
  from assms have u: "unique_ids st"
    by (simp add: ids_allocated_def)
  have "(\<lambda>t. tx_id (if in_recurrence now uid st t then flag stamp t else t)) = tx_id"
    by (rule ext) simp
  with assms show ?thesis
    unfolding transactions_detect [OF u] ids_allocated_iff by (simp add: comp_def)
qed

end
